theory Spec2Isabelle
  imports Complex_Main
begin

section \<open>Gravity Runner: the simulation of GravityRunner.tsx\<close>

text \<open>
  The component keeps its simulation in one mutable record (\<open>gameState.current\<close>) and
  advances it once per animation frame in \<open>updateGame\<close>. The embedding passes that record
  explicitly. Timestamps returned by \<open>Date.now()\<close> and the score (which starts at 0 and
  only ever grows by 10) are integers, every other number is a real.

  JavaScript computes in binary64 and rounds every result. The rounding is written out
  where it changes what is computed in a way the properties below depend on: in the sum
  that accumulates the distance, in the speed formula and in the product that selects the
  obstacle pattern. The geometry of the patterns is given twice, in exact arithmetic and
  with every operation rounded. The physics of the player, the movement of the obstacles
  and the particles are in exact arithmetic.

  The values \<open>Math.random()\<close> returns during one call are a sequence \<open>nat \<Rightarrow> real\<close> handed
  to the call (element 0 is the first draw the call makes); the values \<open>Date.now()\<close>
  returns are arguments named after the place that reads them.
\<close>

subsection \<open>Data\<close>

record obstacle =
  o_id :: real
  o_x :: real
  o_y :: real
  o_width :: real
  o_height :: real
  isTop :: bool

record particle =
  pt_id :: real
  pt_x :: real
  pt_y :: real
  vx :: real
  vy :: real
  life :: real

record player =
  p_x :: real
  p_y :: real
  p_width :: real
  p_height :: real
  velocityY :: real
  onGround :: bool
  gravityFlipped :: bool
  isFlipping :: bool
  flipStartTime :: int

text \<open>\<open>gameState.current\<close>; \<open>keys_space\<close> is the field \<open>keys.space\<close>.\<close>

record game_state =
  player :: player
  obstacles :: "obstacle list"
  particles :: "particle list"
  gameSpeed :: real
  lastObstacleTime :: int
  score :: int
  distance :: real
  startTime :: int
  keys_space :: bool

type_synonym rng = "nat \<Rightarrow> real"

subsection \<open>Constants\<close>

definition canvas_width :: real where
  "canvas_width = 360"

definition canvas_height :: real where
  "canvas_height = 640"

definition GRAVITY :: real where
  "GRAVITY = 0.8"

definition JUMP_FORCE :: real where
  "JUMP_FORCE = - 15"

definition getGroundY :: real where
  "getGroundY = canvas_height - 50"

definition getCeilingY :: real where
  "getCeilingY = 50"

definition getPlayerSize :: real where
  "getPlayerSize = 25"

subsection \<open>Binary64 rounding\<close>

text \<open>
  A JavaScript number is an IEEE 754 binary64 value, and the result of every arithmetic
  operation is the exact result rounded to the nearest such value, ties going to the even
  significand. \<open>fl\<close> is that rounding: the grid around \<open>x\<close> has the spacing \<open>ulp x\<close>,
  which is \<open>2 ^ (e - 52)\<close> for \<open>2 ^ e \<le> \<bar>x\<bar> < 2 ^ (e + 1)\<close> and stops shrinking at the
  subnormal numbers. Overflow to infinity is not modelled: no number of the game comes
  near \<open>2 ^ 1024\<close>.
\<close>

definition round_even :: "real \<Rightarrow> int" where
  "round_even x =
     (let f = \<lfloor>x\<rfloor>; d = x - real_of_int f
      in if d < 1 / 2 then f else if d > 1 / 2 then f + 1 else if even f then f else f + 1)"

definition binade :: "real \<Rightarrow> int" where
  "binade x = max \<lfloor>log 2 \<bar>x\<bar>\<rfloor> (- 1022)"

definition ulp :: "real \<Rightarrow> real" where
  "ulp x = 2 powr (real_of_int (binade x) - 52)"

definition fl :: "real \<Rightarrow> real" where
  "fl x = (if x = 0 then 0 else real_of_int (round_even (x / ulp x)) * ulp x)"

definition fadd :: "real \<Rightarrow> real \<Rightarrow> real" where
  "fadd a b = fl (a + b)"

definition fsub :: "real \<Rightarrow> real \<Rightarrow> real" where
  "fsub a b = fl (a - b)"

definition fmul :: "real \<Rightarrow> real \<Rightarrow> real" where
  "fmul a b = fl (a * b)"

definition fdiv :: "real \<Rightarrow> real \<Rightarrow> real" where
  "fdiv a b = fl (a / b)"

subsection \<open>Progressive difficulty\<close>

definition getDifficultyLevel :: "int \<Rightarrow> int" where
  "getDifficultyLevel sc = \<lfloor>real_of_int sc / 100\<rfloor>"

definition getObstacleSpacing :: "int \<Rightarrow> int" where
  "getObstacleSpacing level = max 800 (1500 - level * 100)"

definition getObstacleVariety :: "int \<Rightarrow> int" where
  "getObstacleVariety level = min 4 (1 + \<lfloor>real_of_int level / 2\<rfloor>)"

subsection \<open>Obstacle patterns\<close>

definition push_obstacle :: "obstacle \<Rightarrow> game_state \<Rightarrow> game_state" where
  "push_obstacle ob st = st\<lparr>obstacles := obstacles st @ [ob]\<rparr>"

definition createSingleObstacle :: "real \<Rightarrow> rng \<Rightarrow> game_state \<Rightarrow> game_state" where
  "createSingleObstacle ident rnd st =
     (let top = (rnd 0 < 0.5);
          h = canvas_height * (0.15 + rnd 1 * 0.15)
      in push_obstacle
           \<lparr>o_id = ident, o_x = canvas_width,
            o_y = (if top then getCeilingY else getGroundY - h),
            o_width = 20, o_height = h, isTop = top\<rparr> st)"

definition createDoubleObstacle :: "real \<Rightarrow> game_state \<Rightarrow> game_state" where
  "createDoubleObstacle ident st =
     (let gap = canvas_height * 0.4;
          topHeight = canvas_height * 0.2;
          bottomHeight = canvas_height - gap - topHeight - 100
      in push_obstacle
           \<lparr>o_id = ident + 0.1, o_x = canvas_width, o_y = getGroundY - bottomHeight,
            o_width = 20, o_height = bottomHeight, isTop = False\<rparr>
           (push_obstacle
              \<lparr>o_id = ident, o_x = canvas_width, o_y = getCeilingY,
               o_width = 20, o_height = topHeight, isTop = True\<rparr> st))"

definition createNarrowGap :: "real \<Rightarrow> rng \<Rightarrow> game_state \<Rightarrow> game_state" where
  "createNarrowGap ident rnd st =
     (let gap = max 80 (canvas_height * 0.25);
          gapStart = getCeilingY + 50 + rnd 0 * (canvas_height - gap - 150)
      in push_obstacle
           \<lparr>o_id = ident + 0.1, o_x = canvas_width, o_y = gapStart + gap,
            o_width = 25, o_height = getGroundY - (gapStart + gap), isTop = False\<rparr>
           (push_obstacle
              \<lparr>o_id = ident, o_x = canvas_width, o_y = getCeilingY,
               o_width = 25, o_height = gapStart - getCeilingY, isTop = True\<rparr> st))"

text \<open>
  One spike of the spike pattern: iteration \<open>i\<close> of the loop draws \<open>isTop\<close> and then the
  height, after the one draw that fixed \<open>spikeCount\<close>.
\<close>

definition spike :: "real \<Rightarrow> rng \<Rightarrow> nat \<Rightarrow> obstacle" where
  "spike ident rnd i =
     (let top = (rnd (1 + 2 * i) < 0.5);
          h = 40 + rnd (2 + 2 * i) * 60
      in \<lparr>o_id = ident + real i * 0.1, o_x = canvas_width + real i * 15,
          o_y = (if top then getCeilingY else getGroundY - h),
          o_width = 12, o_height = h, isTop = top\<rparr>)"

definition createSpikePattern :: "real \<Rightarrow> rng \<Rightarrow> game_state \<Rightarrow> game_state" where
  "createSpikePattern ident rnd st =
     (let spikeCount = 3 + \<lfloor>rnd 0 * 3\<rfloor>
      in fold (\<lambda>i. push_obstacle (spike ident rnd i)) [0..<nat spikeCount] st)"

text \<open>The \<open>switch\<close> over the pattern index, with its \<open>default\<close> branch.\<close>

definition spawnPattern :: "int \<Rightarrow> real \<Rightarrow> rng \<Rightarrow> game_state \<Rightarrow> game_state" where
  "spawnPattern pattern ident rnd st =
     (if pattern = 0 then createSingleObstacle ident rnd st
      else if pattern = 1 then createDoubleObstacle ident st
      else if pattern = 2 then createNarrowGap ident rnd st
      else if pattern = 3 then createSpikePattern ident rnd st
      else createSingleObstacle ident rnd st)"

text \<open>
  The generator. \<open>now\<close> is its reading of the clock; \<open>rnd 0\<close> selects the pattern and the
  pattern's own draws follow. The product of the draw and the variety is rounded before
  \<open>Math.floor\<close> is applied to it. The patterns pushed here are those in exact arithmetic;
  \<open>createObstacle_d\<close> below pushes them as computed.
\<close>

definition createObstacle :: "int \<Rightarrow> rng \<Rightarrow> game_state \<Rightarrow> game_state" where
  "createObstacle now rnd st =
     (let level = getDifficultyLevel (score st);
          spacing = getObstacleSpacing level
      in if now - lastObstacleTime st < spacing then st
         else
           (let variety = getObstacleVariety level;
                pattern = \<lfloor>fmul (rnd 0) (real_of_int variety)\<rfloor>
            in (spawnPattern pattern (real_of_int now) (\<lambda>n. rnd (Suc n)) st)
                 \<lparr>lastObstacleTime := now\<rparr>))"

subsection \<open>The component around the simulation\<close>

text \<open>
  The React state of the component, the one item it keeps in \<open>localStorage\<close> and the
  notifications it has raised. \<open>score_shown\<close> and \<open>distance_shown\<close> are the React state
  variables \<open>score\<close> and \<open>distance\<close>, renamed apart from the fields of \<open>gameState.current\<close>.
  The stored item is kept as the integer its decimal string denotes; \<open>None\<close> is an absent
  key.
\<close>

record component =
  gameStarted :: bool
  gameOver :: bool
  score_shown :: int
  distance_shown :: int
  timeAlive :: int
  highScore :: int
  storage :: "int option"
  toasts :: "string list"
  game :: game_state

text \<open>\<open>parseInt(localStorage.getItem('gravityRunnerHighScore') || '0')\<close>\<close>

definition loadHighScore :: "int option \<Rightarrow> int" where
  "loadHighScore item = (case item of None \<Rightarrow> 0 | Some v \<Rightarrow> v)"

text \<open>The component as first rendered, over a given content of the store.\<close>

definition mount :: "int option \<Rightarrow> component" where
  "mount item =
     \<lparr>gameStarted = False, gameOver = False, score_shown = 0, distance_shown = 0,
      timeAlive = 0, highScore = loadHighScore item, storage = item, toasts = [],
      game =
        \<lparr>player =
           \<lparr>p_x = 100, p_y = 300, p_width = 30, p_height = 30, velocityY = 0,
            onGround = True, gravityFlipped = False, isFlipping = False,
            flipStartTime = 0\<rparr>,
         obstacles = [], particles = [], gameSpeed = 3, lastObstacleTime = 0,
         score = 0, distance = 0, startTime = 0, keys_space = False\<rparr>\<rparr>"

definition startGame :: "component \<Rightarrow> component" where
  "startGame w =
     (let playerSize = getPlayerSize;
          startY = canvas_height / 2
      in w\<lparr>gameStarted := True, gameOver := False, score_shown := 0,
            distance_shown := 0, timeAlive := 0,
            game :=
              \<lparr>player =
                 \<lparr>p_x = canvas_width * 0.15, p_y = startY, p_width = playerSize,
                  p_height = playerSize, velocityY = 0, onGround = True,
                  gravityFlipped = False, isFlipping = False, flipStartTime = 0\<rparr>,
               obstacles = [], particles = [], gameSpeed = 4, lastObstacleTime = 0,
               score = 0, distance = 0, startTime = 0, keys_space = False\<rparr>,
            toasts := toasts w @ [''Game Started! Press SPACE to flip gravity!'']\<rparr>)"

subsection \<open>Particles and collision test\<close>

text \<open>
  Iteration \<open>i\<close> of the loop of \<open>createParticles\<close> reads the clock once (\<open>tm i\<close>) and draws
  four random numbers.
\<close>

definition new_particle :: "(nat \<Rightarrow> int) \<Rightarrow> rng \<Rightarrow> real \<Rightarrow> real \<Rightarrow> nat \<Rightarrow> particle" where
  "new_particle tm rnd cx cy i =
     \<lparr>pt_id = real_of_int (tm i) + real i,
      pt_x = cx + rnd (4 * i) * 20 - 10,
      pt_y = cy + rnd (4 * i + 1) * 20 - 10,
      vx = (rnd (4 * i + 2) - 0.5) * 8,
      vy = (rnd (4 * i + 3) - 0.5) * 8,
      life = 1\<rparr>"

definition createParticles ::
  "(nat \<Rightarrow> int) \<Rightarrow> rng \<Rightarrow> real \<Rightarrow> real \<Rightarrow> game_state \<Rightarrow> game_state" where
  "createParticles tm rnd cx cy st =
     fold (\<lambda>i s. s\<lparr>particles := particles s @ [new_particle tm rnd cx cy i]\<rparr>) [0..<8] st"

definition checkCollision :: "player \<Rightarrow> obstacle \<Rightarrow> bool" where
  "checkCollision rect1 rect2 \<longleftrightarrow>
     p_x rect1 < o_x rect2 + o_width rect2 \<and>
     p_x rect1 + p_width rect1 > o_x rect2 \<and>
     p_y rect1 < o_y rect2 + o_height rect2 \<and>
     p_y rect1 + p_height rect1 > o_y rect2"

subsection \<open>One frame: updateGame\<close>

text \<open>What one call of \<open>updateGame\<close> reads from the clock and the random source.\<close>

record frame_env =
  now_frame :: int
  now_flip :: int
  now_particle :: "nat \<Rightarrow> int"
  rnd_particle :: rng
  now_anim :: int
  now_spawn :: int
  rnd_spawn :: rng

text \<open>Update distance and time tracking; the sum and the quotient are rounded.\<close>

definition trackDistance :: "int \<Rightarrow> component \<Rightarrow> component" where
  "trackDistance currentTime w =
     (let st = game w;
          st1 = st\<lparr>distance := fadd (distance st) (gameSpeed st)\<rparr>;
          st2 = (if startTime st1 = 0 then st1\<lparr>startTime := currentTime\<rparr> else st1);
          timeAliveSeconds = \<lfloor>fdiv (real_of_int (currentTime - startTime st2)) 1000\<rfloor>
      in w\<lparr>game := st2, distance_shown := \<lfloor>distance st2\<rfloor>,
            timeAlive := timeAliveSeconds\<rparr>)"

text \<open>Handle gravity flip.\<close>

definition handleFlip :: "frame_env \<Rightarrow> game_state \<Rightarrow> game_state" where
  "handleFlip env st =
     (if keys_space st \<and> \<not> isFlipping (player st) then
        (let p = player st;
             flipped = (\<not> gravityFlipped p);
             p' = p\<lparr>gravityFlipped := flipped, isFlipping := True,
                    flipStartTime := now_flip env,
                    velocityY := (if flipped then JUMP_FORCE else - JUMP_FORCE)\<rparr>
         in createParticles (now_particle env) (rnd_particle env)
              (p_x p' + p_width p' / 2) (p_y p' + p_height p' / 2)
              (st\<lparr>player := p'\<rparr>))
      else st)"

text \<open>Update flip animation.\<close>

definition updateFlipAnimation :: "int \<Rightarrow> player \<Rightarrow> player" where
  "updateFlipAnimation now p =
     (if isFlipping p \<and> now - flipStartTime p > 300 then p\<lparr>isFlipping := False\<rparr> else p)"

text \<open>Apply gravity, then update the player position.\<close>

definition applyGravity :: "player \<Rightarrow> player" where
  "applyGravity p =
     (let gravity = (if gravityFlipped p then - GRAVITY else GRAVITY);
          p1 = p\<lparr>velocityY := velocityY p + gravity\<rparr>
      in p1\<lparr>p_y := p_y p1 + velocityY p1\<rparr>)"

text \<open>Ground/ceiling collision.\<close>

definition groundCeilingCollision :: "player \<Rightarrow> player" where
  "groundCeilingCollision p =
     (let groundY = getGroundY;
          ceilingY = getCeilingY
      in if \<not> gravityFlipped p then
           (if p_y p + p_height p \<ge> groundY
            then p\<lparr>p_y := groundY - p_height p, velocityY := 0, onGround := True\<rparr>
            else p\<lparr>onGround := False\<rparr>)
         else
           (if p_y p \<le> ceilingY
            then p\<lparr>p_y := ceilingY, velocityY := 0, onGround := True\<rparr>
            else p\<lparr>onGround := False\<rparr>))"

text \<open>
  The callback of \<open>state.obstacles.filter\<close>. It moves the obstacle, and returns \<open>None\<close>
  where the source returns \<open>false\<close> (the obstacle is dropped) and the moved obstacle where
  it returns \<open>true\<close>. \<open>hs\<close> is the value of \<open>highScore\<close> that \<open>updateGame\<close> closed over.
\<close>

definition obstacleCallback :: "int \<Rightarrow> obstacle \<Rightarrow> component \<Rightarrow> obstacle option \<times> component" where
  "obstacleCallback hs ob w =
     (let st = game w;
          ob' = ob\<lparr>o_x := o_x ob - gameSpeed st\<rparr>
      in if o_x ob' + o_width ob' < 0 then
           (let st' = st\<lparr>score := score st + 10\<rparr>
            in (None, w\<lparr>game := st', score_shown := score st'\<rparr>))
         else if checkCollision (player st) ob' then
           (let w1 = w\<lparr>gameOver := True\<rparr>
            in (None,
                if score st > hs
                then w1\<lparr>highScore := score st, storage := Some (score st),
                        toasts := toasts w1 @ [''New High Score!'']\<rparr>
                else w1))
         else (Some ob', w))"

fun filterObstacles :: "int \<Rightarrow> obstacle list \<Rightarrow> component \<Rightarrow> obstacle list \<times> component" where
  "filterObstacles hs [] w = ([], w)"
| "filterObstacles hs (ob # obs) w =
     (case obstacleCallback hs ob w of
        (keep, w') \<Rightarrow>
          (case filterObstacles hs obs w' of
             (rest, w'') \<Rightarrow>
               ((case keep of None \<Rightarrow> rest | Some ob' \<Rightarrow> ob' # rest), w'')))"

text \<open>Update particles.\<close>

definition moveParticle :: "particle \<Rightarrow> particle" where
  "moveParticle pt =
     pt\<lparr>pt_x := pt_x pt + vx pt, pt_y := pt_y pt + vy pt,
        vx := vx pt * 0.98, vy := vy pt * 0.98, life := life pt - 0.02\<rparr>"

definition updateParticles :: "particle list \<Rightarrow> particle list" where
  "updateParticles ps = filter (\<lambda>pt. life pt > 0) (map moveParticle ps)"

text \<open>Progressive speed increase, every product and sum rounded.\<close>

definition nextSpeed :: "game_state \<Rightarrow> real" where
  "nextSpeed st =
     (let level = getDifficultyLevel (score st);
          baseSpeed = 4;
          speedMultiplier =
            fadd (fadd 1 (fmul (real_of_int level) (fl 0.3))) (fmul (distance st) (fl 0.0001))
      in min 12 (fmul baseSpeed speedMultiplier))"

text \<open>The physics of the player: lines 227 to 259, after the flip has been handled.\<close>

definition movePlayer :: "int \<Rightarrow> player \<Rightarrow> player" where
  "movePlayer now p = groundCeilingCollision (applyGravity (updateFlipAnimation now p))"

text \<open>
  \<open>updateGame\<close> up to and including the call of \<open>createObstacle\<close> (lines 206 to 262):
  the state on which the obstacle filter then runs.
\<close>

definition beforeObstacles :: "frame_env \<Rightarrow> component \<Rightarrow> component" where
  "beforeObstacles env w =
     (let w1 = trackDistance (now_frame env) w;
          st1 = handleFlip env (game w1);
          st2 = st1\<lparr>player := movePlayer (now_anim env) (player st1)\<rparr>;
          st3 = createObstacle (now_spawn env) (rnd_spawn env) st2
      in w1\<lparr>game := st3\<rparr>)"

definition updateGame :: "int \<Rightarrow> frame_env \<Rightarrow> component \<Rightarrow> component" where
  "updateGame hs env w =
     (let w1 = beforeObstacles env w
      in case filterObstacles hs (obstacles (game w1)) w1 of
           (kept, w2) \<Rightarrow>
             (let st4 = (game w2)\<lparr>obstacles := kept\<rparr>;
                  st5 = st4\<lparr>particles := updateParticles (particles st4)\<rparr>
              in w2\<lparr>game := st5\<lparr>gameSpeed := nextSpeed st5\<rparr>\<rparr>))"

subsection \<open>Loop driver and input adapter\<close>

text \<open>
  \<open>gameLoop\<close> without the renderer, which only reads the state. The flags and the high
  score it closes over are those of the latest render.
\<close>

definition gameLoop :: "frame_env \<Rightarrow> component \<Rightarrow> component" where
  "gameLoop env w =
     (if \<not> gameOver w \<and> gameStarted w then updateGame (highScore w) env w else w)"

definition set_space :: "bool \<Rightarrow> component \<Rightarrow> component" where
  "set_space b w = w\<lparr>game := (game w)\<lparr>keys_space := b\<rparr>\<rparr>"

definition handleKeyDown :: "component \<Rightarrow> component" where
  "handleKeyDown w =
     (if \<not> gameStarted w \<and> \<not> gameOver w then startGame w
      else if gameStarted w \<and> \<not> gameOver w then set_space True w
      else if gameOver w then startGame w
      else w)"

definition handleKeyUp :: "component \<Rightarrow> component" where
  "handleKeyUp w = set_space False w"

text \<open>
  \<open>handleTouch\<close> sets the flag and arms a timer; \<open>TouchTimeout\<close> is the timer firing.
  \<open>StartButton\<close> is a click on either button, both bound to \<open>startGame\<close>.
\<close>

definition handleTouch :: "component \<Rightarrow> component" where
  "handleTouch w =
     (if \<not> gameStarted w \<and> \<not> gameOver w then startGame w
      else if gameStarted w \<and> \<not> gameOver w then set_space True w
      else if gameOver w then startGame w
      else w)"

datatype event = KeyDown | KeyUp | Touch | TouchTimeout | StartButton | Frame frame_env

fun handle :: "event \<Rightarrow> component \<Rightarrow> component" where
  "handle KeyDown w = handleKeyDown w"
| "handle KeyUp w = handleKeyUp w"
| "handle Touch w = handleTouch w"
| "handle TouchTimeout w = set_space False w"
| "handle StartButton w = startGame w"
| "handle (Frame env) w = gameLoop env w"

text \<open>A run of the component: the events in the order they are dispatched.\<close>

definition run :: "event list \<Rightarrow> component \<Rightarrow> component" where
  "run evs w = fold handle evs w"

section \<open>The pattern generators as computed\<close>

text \<open>
  The four generators again, every sum, difference and product rounded. A decimal literal
  such as \<open>0.15\<close> denotes the binary64 value nearest to it; the integer literals and the
  canvas dimensions are binary64 values themselves. The draws are compared and floored
  without rounding, as comparison and \<open>Math.floor\<close> are exact.
\<close>

definition createSingleObstacle_d :: "real \<Rightarrow> rng \<Rightarrow> game_state \<Rightarrow> game_state" where
  "createSingleObstacle_d ident rnd st =
     (let top = (rnd 0 < 0.5);
          h = fmul canvas_height (fadd (fl 0.15) (fmul (rnd 1) (fl 0.15)))
      in push_obstacle
           \<lparr>o_id = ident, o_x = canvas_width,
            o_y = (if top then getCeilingY else fsub getGroundY h),
            o_width = 20, o_height = h, isTop = top\<rparr> st)"

definition createDoubleObstacle_d :: "real \<Rightarrow> game_state \<Rightarrow> game_state" where
  "createDoubleObstacle_d ident st =
     (let gap = fmul canvas_height (fl 0.4);
          topHeight = fmul canvas_height (fl 0.2);
          bottomHeight = fsub (fsub (fsub canvas_height gap) topHeight) 100
      in push_obstacle
           \<lparr>o_id = fadd ident (fl 0.1), o_x = canvas_width,
            o_y = fsub getGroundY bottomHeight,
            o_width = 20, o_height = bottomHeight, isTop = False\<rparr>
           (push_obstacle
              \<lparr>o_id = ident, o_x = canvas_width, o_y = getCeilingY,
               o_width = 20, o_height = topHeight, isTop = True\<rparr> st))"

definition createNarrowGap_d :: "real \<Rightarrow> rng \<Rightarrow> game_state \<Rightarrow> game_state" where
  "createNarrowGap_d ident rnd st =
     (let gap = max 80 (fmul canvas_height (fl 0.25));
          gapStart = fadd (fadd getCeilingY 50)
                       (fmul (rnd 0) (fsub (fsub canvas_height gap) 150))
      in push_obstacle
           \<lparr>o_id = fadd ident (fl 0.1), o_x = canvas_width, o_y = fadd gapStart gap,
            o_width = 25, o_height = fsub getGroundY (fadd gapStart gap), isTop = False\<rparr>
           (push_obstacle
              \<lparr>o_id = ident, o_x = canvas_width, o_y = getCeilingY,
               o_width = 25, o_height = fsub gapStart getCeilingY, isTop = True\<rparr> st))"

definition spike_d :: "real \<Rightarrow> rng \<Rightarrow> nat \<Rightarrow> obstacle" where
  "spike_d ident rnd i =
     (let top = (rnd (1 + 2 * i) < 0.5);
          h = fadd 40 (fmul (rnd (2 + 2 * i)) 60)
      in \<lparr>o_id = fadd ident (fmul (real i) (fl 0.1)),
          o_x = fadd canvas_width (fmul (real i) 15),
          o_y = (if top then getCeilingY else fsub getGroundY h),
          o_width = 12, o_height = h, isTop = top\<rparr>)"

definition createSpikePattern_d :: "real \<Rightarrow> rng \<Rightarrow> game_state \<Rightarrow> game_state" where
  "createSpikePattern_d ident rnd st =
     (let spikeCount = 3 + \<lfloor>fmul (rnd 0) 3\<rfloor>
      in fold (\<lambda>i. push_obstacle (spike_d ident rnd i)) [0..<nat spikeCount] st)"

text \<open>The \<open>switch\<close> and the generator with the patterns as computed.\<close>

definition spawnPattern_d :: "int \<Rightarrow> real \<Rightarrow> rng \<Rightarrow> game_state \<Rightarrow> game_state" where
  "spawnPattern_d pattern ident rnd st =
     (if pattern = 0 then createSingleObstacle_d ident rnd st
      else if pattern = 1 then createDoubleObstacle_d ident st
      else if pattern = 2 then createNarrowGap_d ident rnd st
      else if pattern = 3 then createSpikePattern_d ident rnd st
      else createSingleObstacle_d ident rnd st)"

definition createObstacle_d :: "int \<Rightarrow> rng \<Rightarrow> game_state \<Rightarrow> game_state" where
  "createObstacle_d now rnd st =
     (let level = getDifficultyLevel (score st);
          spacing = getObstacleSpacing level
      in if now - lastObstacleTime st < spacing then st
         else
           (let variety = getObstacleVariety level;
                pattern = \<lfloor>fmul (rnd 0) (real_of_int variety)\<rfloor>
            in (spawnPattern_d pattern (real_of_int now) (\<lambda>n. rnd (Suc n)) st)
                 \<lparr>lastObstacleTime := now\<rparr>))"

section \<open>Vocabulary of the properties\<close>

text \<open>The obstacles a generator call has pushed onto the collection of \<open>st\<close>.\<close>

definition appended :: "game_state \<Rightarrow> game_state \<Rightarrow> obstacle list" where
  "appended st st' = drop (length (obstacles st)) (obstacles st')"

definition positive_size :: "obstacle \<Rightarrow> bool" where
  "positive_size ob \<longleftrightarrow> 0 < o_width ob \<and> 0 < o_height ob"

text \<open>The same with a height that may be zero.\<close>

definition sound_size :: "obstacle \<Rightarrow> bool" where
  "sound_size ob \<longleftrightarrow> 0 < o_width ob \<and> 0 \<le> o_height ob"

text \<open>The obstacle starts at or beyond the right edge, past the right side of the player.\<close>

definition spawnColumnClear :: "player \<Rightarrow> obstacle \<Rightarrow> bool" where
  "spawnColumnClear pl ob \<longleftrightarrow> canvas_width \<le> o_x ob \<and> p_x pl + p_width pl < o_x ob"

definition inBand :: "player \<Rightarrow> bool" where
  "inBand p \<longleftrightarrow> getCeilingY \<le> p_y p \<and> p_y p + p_height p \<le> getGroundY"

text \<open>
  The invariant behind \<open>inBand\<close>: between frames the velocity is zero or points the way
  gravity pulls, so the player only moves towards the surface that will stop it.
\<close>

definition falling :: "player \<Rightarrow> bool" where
  "falling p \<longleftrightarrow>
     inBand p \<and> (if gravityFlipped p then velocityY p \<le> 0 else 0 \<le> velocityY p)"

text \<open>An obstacle after the horizontal movement of a frame, and the scoring test on it.\<close>

definition moveObstacle :: "real \<Rightarrow> obstacle \<Rightarrow> obstacle" where
  "moveObstacle sp ob = ob\<lparr>o_x := o_x ob - sp\<rparr>"

definition offScreen :: "obstacle \<Rightarrow> bool" where
  "offScreen ob \<longleftrightarrow> o_x ob + o_width ob < 0"

text \<open>
  The rule for the stored high score in the words of the specification: a score replaces
  the stored value exactly when it is strictly greater than what the store reads as.
\<close>

definition recordScore :: "int \<Rightarrow> int option \<Rightarrow> int option" where
  "recordScore sc item = (if sc > loadHighScore item then Some sc else item)"

text \<open>
  That rule applied along one pass over the obstacles: \<open>sc\<close> is the running score,
  \<open>item\<close> the store; every collision applies \<open>recordScore\<close> to the store as it then is.
\<close>

fun storedAfter :: "real \<Rightarrow> player \<Rightarrow> obstacle list \<Rightarrow> int \<Rightarrow> int option \<Rightarrow> int option" where
  "storedAfter sp pl [] sc item = item"
| "storedAfter sp pl (ob # obs) sc item =
     (if offScreen (moveObstacle sp ob) then storedAfter sp pl obs (sc + 10) item
      else if checkCollision pl (moveObstacle sp ob)
        then storedAfter sp pl obs sc (recordScore sc item)
      else storedAfter sp pl obs sc item)"

text \<open>
  How far the high score a frame closed over may lag behind the store during that frame:
  either it is what the store reads as, or the store was written earlier in the same pass.
\<close>

definition inSync :: "int \<Rightarrow> component \<Rightarrow> bool" where
  "inSync hs w \<longleftrightarrow>
     hs = loadHighScore (storage w) \<or>
     ((\<exists>v. storage w = Some v) \<and> hs < loadHighScore (storage w) \<and>
      loadHighScore (storage w) \<le> score (game w))"

text \<open>
  Concrete inputs: every draw is one half; every draw is the largest binary64 value below 1;
  a frame during which the clock reads \<open>t\<close>.
\<close>

definition half_draws :: rng where
  "half_draws n = 1 / 2"

definition top_draws :: rng where
  "top_draws n = 1 - 1 / 2 ^ 53"

definition tick :: "int \<Rightarrow> frame_env" where
  "tick t =
     \<lparr>now_frame = t, now_flip = t, now_particle = (\<lambda>i. t), rnd_particle = half_draws,
      now_anim = t, now_spawn = t, rnd_spawn = half_draws\<rparr>"

section \<open>Rounding\<close>

lemma round_even_bounds: "\<lfloor>x\<rfloor> \<le> round_even x \<and> round_even x \<le> \<lfloor>x\<rfloor> + 1"
  by (simp add: round_even_def Let_def)

lemma round_even_int [simp]: "round_even (real_of_int n) = n"
  by (simp add: round_even_def Let_def)

lemma round_even_mono:
  assumes "x \<le> y"
  shows "round_even x \<le> round_even y"
proof (cases "\<lfloor>x\<rfloor> = \<lfloor>y\<rfloor>")
  case True
  with assms have "x - real_of_int \<lfloor>x\<rfloor> \<le> y - real_of_int \<lfloor>y\<rfloor>" by simp
  with True show ?thesis by (auto simp add: round_even_def Let_def)
next
  case False
  with assms have "\<lfloor>x\<rfloor> < \<lfloor>y\<rfloor>" using floor_mono [OF assms] by linarith
  then have "round_even x \<le> \<lfloor>y\<rfloor>" using round_even_bounds [of x] by linarith
  then show ?thesis using round_even_bounds [of y] by linarith
qed

lemma round_even_le: "x \<le> real_of_int k \<Longrightarrow> round_even x \<le> k"
  using round_even_mono [of x "real_of_int k"] by simp

lemma round_even_ge: "real_of_int k \<le> x \<Longrightarrow> k \<le> round_even x"
  using round_even_mono [of "real_of_int k" x] by simp

lemma ulp_pos [simp]: "0 < ulp x"
  by (simp add: ulp_def)

lemma ulp_nonneg [simp]: "0 \<le> ulp x"
  by (simp add: ulp_def)

lemma ulp_scale:
  "2 powr 53 * ulp x = 2 powr (real_of_int (binade x) + 1)"
  "2 powr 52 * ulp x = 2 powr real_of_int (binade x)"
proof -
  have "2 powr 53 * ulp x = 2 powr (53 + (real_of_int (binade x) - 52))"
    unfolding ulp_def by (rule powr_add [symmetric])
  also have "53 + (real_of_int (binade x) - 52) = real_of_int (binade x) + 1" by simp
  finally show "2 powr 53 * ulp x = 2 powr (real_of_int (binade x) + 1)" .
  have "2 powr 52 * ulp x = 2 powr (52 + (real_of_int (binade x) - 52))"
    unfolding ulp_def by (rule powr_add [symmetric])
  also have "52 + (real_of_int (binade x) - 52) = real_of_int (binade x)" by simp
  finally show "2 powr 52 * ulp x = 2 powr real_of_int (binade x)" .
qed

text \<open>Bounds on a scaled value carry over to the rounded value.\<close>

lemma fl_le_scaled:
  assumes "x \<noteq> 0" "x \<le> real_of_int k * ulp x"
  shows "fl x \<le> real_of_int k * ulp x"
proof -
  have "x / ulp x \<le> real_of_int k"
    using assms(2) ulp_pos [of x] by (simp add: pos_divide_le_eq)
  then have "round_even (x / ulp x) \<le> k" by (rule round_even_le)
  then have "real_of_int (round_even (x / ulp x)) \<le> real_of_int k" by simp
  then have "real_of_int (round_even (x / ulp x)) * ulp x \<le> real_of_int k * ulp x"
    by (rule mult_right_mono) simp
  then show ?thesis using assms(1) by (simp add: fl_def)
qed

lemma fl_ge_scaled:
  assumes "x \<noteq> 0" "real_of_int k * ulp x \<le> x"
  shows "real_of_int k * ulp x \<le> fl x"
proof -
  have "real_of_int k \<le> x / ulp x"
    using assms(2) ulp_pos [of x] by (simp add: pos_le_divide_eq)
  then have "k \<le> round_even (x / ulp x)" by (rule round_even_ge)
  then have "real_of_int k \<le> real_of_int (round_even (x / ulp x))" by simp
  then have "real_of_int k * ulp x \<le> real_of_int (round_even (x / ulp x)) * ulp x"
    by (rule mult_right_mono) simp
  then show ?thesis using assms(1) by (simp add: fl_def)
qed

lemma two_powr_int: "2 powr 53 = real_of_int (2 ^ 53)" "2 powr 52 = real_of_int (2 ^ 52)"
  by simp_all

lemma binade_mono:
  assumes "0 < x" "x \<le> y"
  shows "binade x \<le> binade y"
proof -
  have "log 2 x \<le> log 2 y" using assms by simp
  then have "\<lfloor>log 2 \<bar>x\<bar>\<rfloor> \<le> \<lfloor>log 2 \<bar>y\<bar>\<rfloor>" using assms by (simp add: floor_mono)
  then show ?thesis by (simp add: binade_def)
qed

lemma below_next_binade:
  assumes "0 < x"
  shows "x < 2 powr (real_of_int (binade x) + 1)"
proof -
  have "x < 2 powr (real_of_int \<lfloor>log 2 x\<rfloor> + 1)"
    using floor_log_eq_powr_iff [of x 2 "\<lfloor>log 2 x\<rfloor>"] assms by simp
  also have "\<dots> \<le> 2 powr (real_of_int (binade x) + 1)"
    using assms by (intro powr_mono) (simp_all add: binade_def)
  finally show ?thesis .
qed

lemma above_binade:
  assumes "0 < x" "- 1022 < binade x"
  shows "2 powr real_of_int (binade x) \<le> x"
proof -
  have "binade x = \<lfloor>log 2 x\<rfloor>" using assms by (simp add: binade_def max_def split: if_splits)
  then show ?thesis
    using floor_log_eq_powr_iff [of x 2 "\<lfloor>log 2 x\<rfloor>"] assms by simp
qed

lemma fl_upper:
  assumes "0 < x"
  shows "fl x \<le> 2 powr (real_of_int (binade x) + 1)"
proof -
  have "x \<le> 2 powr 53 * ulp x"
    using below_next_binade [OF assms] by (simp only: ulp_scale)
  then have "x \<le> real_of_int (2 ^ 53) * ulp x" by (simp only: two_powr_int)
  with assms have "fl x \<le> real_of_int (2 ^ 53) * ulp x" by (intro fl_le_scaled) simp_all
  then have "fl x \<le> 2 powr 53 * ulp x" by (simp only: two_powr_int)
  then show ?thesis by (simp only: ulp_scale)
qed

lemma fl_lower:
  assumes "0 < x" "- 1022 < binade x"
  shows "2 powr real_of_int (binade x) \<le> fl x"
proof -
  have "2 powr 52 * ulp x \<le> x"
    using above_binade [OF assms] by (simp only: ulp_scale)
  then have "real_of_int (2 ^ 52) * ulp x \<le> x" by (simp only: two_powr_int)
  with assms have "real_of_int (2 ^ 52) * ulp x \<le> fl x" by (intro fl_ge_scaled) simp_all
  then have "2 powr 52 * ulp x \<le> fl x" by (simp only: two_powr_int)
  then show ?thesis by (simp only: ulp_scale)
qed

lemma fl_nonneg: "0 \<le> x \<Longrightarrow> 0 \<le> fl x"
proof -
  assume "0 \<le> x"
  then have "0 \<le> x / ulp x" using ulp_pos [of x] by (intro divide_nonneg_pos)
  then have "real_of_int 0 \<le> x / ulp x" by simp
  then have "0 \<le> round_even (x / ulp x)" by (rule round_even_ge)
  then show ?thesis by (simp add: fl_def)
qed

lemma fl_mono:
  assumes "0 \<le> x" "x \<le> y"
  shows "fl x \<le> fl y"
proof (cases "x = 0")
  case True
  then show ?thesis using fl_nonneg [of y] assms by (simp add: fl_def)
next
  case False
  then have x: "0 < x" and y: "0 < y" using assms by simp_all
  show ?thesis
  proof (cases "binade x = binade y")
    case True
    then have u: "ulp x = ulp y" by (simp add: ulp_def)
    have "x / ulp y \<le> y / ulp y" using assms ulp_pos [of y] by (intro divide_right_mono) simp_all
    then have "round_even (x / ulp y) \<le> round_even (y / ulp y)" by (rule round_even_mono)
    then have "real_of_int (round_even (x / ulp y)) * ulp y
        \<le> real_of_int (round_even (y / ulp y)) * ulp y"
      by (simp add: mult_right_mono)
    then show ?thesis using x y u by (simp add: fl_def)
  next
    case False
    then have less: "binade x < binade y" using binade_mono [OF x assms(2)] by simp
    moreover have "- 1022 \<le> binade x" by (simp add: binade_def)
    ultimately have "- 1022 < binade y" by simp
    from fl_lower [OF y this] have "2 powr real_of_int (binade y) \<le> fl y" .
    moreover have "2 powr (real_of_int (binade x) + 1) \<le> 2 powr real_of_int (binade y)"
      using less by simp
    ultimately show ?thesis using fl_upper [OF x] by linarith
  qed
qed

lemma binade_eq:
  assumes "2 powr real_of_int e \<le> x" "x < 2 powr (real_of_int e + 1)" "- 1022 \<le> e"
  shows "binade x = e"
proof -
  have "0 < 2 powr real_of_int e" by simp
  with assms(1) have x: "0 < x" by linarith
  then have "\<lfloor>log 2 x\<rfloor> = e"
    using floor_log_eq_powr_iff [of x 2 e] assms by simp
  then show ?thesis using x assms(3) by (simp add: binade_def)
qed

text \<open>Rounding a value whose 53-bit significand is \<open>x * 2 ^ n\<close>.\<close>

lemma fl_scaled:
  assumes "2 ^ 52 \<le> x * 2 ^ n" "x * 2 ^ n < 2 ^ 53" "n \<le> 1074"
  shows "fl x = real_of_int (round_even (x * 2 ^ n)) / 2 ^ n"
proof -
  have p: "(2::real) powr (- real n) = 1 / 2 ^ n"
    by (simp add: powr_minus powr_realpow inverse_eq_divide)
  have "real_of_int (52 - int n) = 52 + (- real n)" by simp
  then have "2 powr real_of_int (52 - int n) = 2 powr 52 * 2 powr (- real n)"
    by (simp only: powr_add)
  also have "\<dots> = 2 ^ 52 / 2 ^ n" by (simp add: p)
  finally have lo: "2 powr real_of_int (52 - int n) = 2 ^ 52 / 2 ^ n" .
  have "real_of_int (52 - int n) + 1 = 53 + (- real n)" by simp
  then have "2 powr (real_of_int (52 - int n) + 1) = 2 powr 53 * 2 powr (- real n)"
    by (simp only: powr_add)
  also have "\<dots> = 2 ^ 53 / 2 ^ n" by (simp add: p)
  finally have hi: "2 powr (real_of_int (52 - int n) + 1) = 2 ^ 53 / 2 ^ n" .
  have "2 ^ 52 / 2 ^ n \<le> x" using assms(1) by (simp add: pos_divide_le_eq)
  then have b1: "2 powr real_of_int (52 - int n) \<le> x" by (simp only: lo)
  have "x < 2 ^ 53 / 2 ^ n" using assms(2) by (simp add: pos_less_divide_eq)
  then have b2: "x < 2 powr (real_of_int (52 - int n) + 1)" by (simp only: hi)
  have b3: "- 1022 \<le> 52 - int n" using assms(3) by simp
  have "binade x = 52 - int n" using b1 b2 b3 by (rule binade_eq)
  then have u: "ulp x = 1 / 2 ^ n"
    using p by (simp add: ulp_def)
  have "x \<noteq> 0" using assms(1) by auto
  then show ?thesis by (simp add: fl_def u)
qed

lemma fl_exact:
  assumes "2 ^ 52 \<le> m" "m < 2 ^ 53" "n \<le> 1074"
  shows "fl (real_of_int m / 2 ^ n) = real_of_int m / 2 ^ n"
proof -
  have "real_of_int (2 ^ 52) \<le> real_of_int m" "real_of_int m < real_of_int (2 ^ 53)"
    using assms(1,2) by (simp_all only: of_int_le_iff of_int_less_iff)
  then have "2 ^ 52 \<le> real_of_int m / 2 ^ n * 2 ^ n" "real_of_int m / 2 ^ n * 2 ^ n < 2 ^ 53"
    by simp_all
  from fl_scaled [OF this assms(3)] show ?thesis by simp
qed

lemma fl_zero [simp]: "fl 0 = 0"
  by (simp add: fl_def)

lemma fl_consts:
  "fl 640 = 640" "fl 590 = 590" "fl 480 = 480" "fl 430 = 430" "fl 360 = 360"
  "fl 330 = 330" "fl 320 = 320" "fl 160 = 160" "fl 100 = 100" "fl 80 = 80" "fl 60 = 60" "fl 50 = 50"
  "fl 40 = 40" "fl (1 / 2) = 1 / 2" "fl (1 / 4) = 1 / 4" "fl (1 / 8) = 1 / 8"
  using fl_exact [of "640 * 2 ^ 43" 43] fl_exact [of "590 * 2 ^ 43" 43]
    fl_exact [of "480 * 2 ^ 44" 44] fl_exact [of "430 * 2 ^ 44" 44]
    fl_exact [of "360 * 2 ^ 44" 44]
    fl_exact [of "330 * 2 ^ 44" 44] fl_exact [of "320 * 2 ^ 44" 44]
    fl_exact [of "160 * 2 ^ 45" 45] fl_exact [of "100 * 2 ^ 46" 46]
    fl_exact [of "80 * 2 ^ 46" 46] fl_exact [of "60 * 2 ^ 47" 47]
    fl_exact [of "50 * 2 ^ 47" 47] fl_exact [of "40 * 2 ^ 47" 47]
    fl_exact [of "2 ^ 52" 53] fl_exact [of "2 ^ 52" 54] fl_exact [of "2 ^ 52" 55]
  by simp_all

lemma fl_ge: "0 \<le> c \<Longrightarrow> fl c = c \<Longrightarrow> c \<le> x \<Longrightarrow> c \<le> fl x"
  using fl_mono [of c x] by simp

lemma fl_le: "0 \<le> x \<Longrightarrow> fl c = c \<Longrightarrow> x \<le> c \<Longrightarrow> fl x \<le> c"
  using fl_mono [of x c] by simp

text \<open>Rounding is odd, hence monotone on all reals.\<close>

lemma round_even_minus: "round_even (- x) = - round_even x"
proof (cases "x = real_of_int \<lfloor>x\<rfloor>")
  case True
  then obtain n where "x = real_of_int n" ..
  then have "- x = real_of_int (- n)" by simp
  then show ?thesis using \<open>x = real_of_int n\<close> by (simp only: round_even_int)
next
  case False
  then have frac: "0 < x - real_of_int \<lfloor>x\<rfloor>" by (simp add: less_le)
  have "x - real_of_int \<lfloor>x\<rfloor> < 1" by linarith
  with frac have fl: "\<lfloor>- x\<rfloor> = - \<lfloor>x\<rfloor> - 1"
    by (intro floor_unique) simp_all
  have "round_even (- x) =
      (if 1 - (x - real_of_int \<lfloor>x\<rfloor>) < 1 / 2 then - \<lfloor>x\<rfloor> - 1
       else if 1 - (x - real_of_int \<lfloor>x\<rfloor>) > 1 / 2 then - \<lfloor>x\<rfloor>
       else if even (- \<lfloor>x\<rfloor> - 1) then - \<lfloor>x\<rfloor> - 1 else - \<lfloor>x\<rfloor>)"
    by (simp add: round_even_def Let_def fl)
  then show ?thesis
    by (auto simp add: round_even_def Let_def)
qed

lemma binade_minus: "binade (- x) = binade x"
  by (simp add: binade_def)

lemma fl_minus: "fl (- x) = - fl x"
  by (simp add: fl_def ulp_def binade_minus round_even_minus)

lemma fl_nonpos: "x \<le> 0 \<Longrightarrow> fl x \<le> 0"
  using fl_nonneg [of "- x"] by (simp add: fl_minus)

lemma fl_mono_all:
  assumes "x \<le> y"
  shows "fl x \<le> fl y"
proof (cases "0 \<le> x")
  case True
  then show ?thesis using assms by (rule fl_mono)
next
  case False
  show ?thesis
  proof (cases "0 \<le> y")
    case True
    then have "0 \<le> fl y" by (rule fl_nonneg)
    moreover have "fl x \<le> 0" using False by (simp add: fl_nonpos)
    ultimately show ?thesis by simp
  next
    case False
    then have "0 \<le> - y" "- y \<le> - x" using assms by simp_all
    then have "fl (- y) \<le> fl (- x)" by (rule fl_mono)
    then show ?thesis by (simp add: fl_minus)
  qed
qed

text \<open>The two decimal literals of the speed formula.\<close>

lemma fl_literals:
  "fl (3 / 10) = 5404319552844595 / 18014398509481984"
  "fl (1 / 10000) = 7378697629483821 / 73786976294838206464"
  using fl_scaled [of "3 / 10" 54] fl_scaled [of "1 / 10000" 66]
  by (simp_all add: round_even_def Let_def)

lemma fl_small: "fl 4 = 4" "fl 1 = 1" "fl 2 = 2" "fl 3 = 3" "fl 12 = 12"
  using fl_exact [of "2 ^ 52" 50] fl_exact [of "2 ^ 52" 52] fl_exact [of "2 ^ 52" 51]
    fl_exact [of "3 * 2 ^ 51" 51] fl_exact [of "3 * 2 ^ 51" 49]
  by simp_all

text \<open>The speed formula at level 0 and distance 4, step by step.\<close>

lemma speed_steps_0:
  "fl (4 * (7378697629483821 / 73786976294838206464)) = 7378697629483821 / 18446744073709551616"
  "fl (1 + 7378697629483821 / 18446744073709551616) = 1126350266805361 / 1125899906842624"
  "fl (4 * (1126350266805361 / 1125899906842624)) = 1126350266805361 / 281474976710656"
  using fl_scaled [of "4 * (7378697629483821 / 73786976294838206464)" 64]
    fl_scaled [of "1 + 7378697629483821 / 18446744073709551616" 52]
    fl_scaled [of "4 * (1126350266805361 / 1125899906842624)" 50]
  by (simp_all add: round_even_def Let_def)

text \<open>The same at level 3.\<close>

lemma speed_steps_3:
  "fl (3 * (5404319552844595 / 18014398509481984)) = 2026619832316723 / 2251799813685248"
  "fl (1 + 2026619832316723 / 2251799813685248) = 4278419646001971 / 2251799813685248"
  "fl (4278419646001971 / 2251799813685248 + 7378697629483821 / 18446744073709551616)
     = 4279320365927445 / 2251799813685248"
  "fl (4 * (4279320365927445 / 2251799813685248)) = 4279320365927445 / 562949953421312"
  "fl (4751 / 625) = 8558640731854891 / 1125899906842624"
  using fl_scaled [of "3 * (5404319552844595 / 18014398509481984)" 53]
    fl_scaled [of "1 + 2026619832316723 / 2251799813685248" 52]
    fl_scaled [of "4278419646001971 / 2251799813685248 + 7378697629483821 / 18446744073709551616" 52]
    fl_scaled [of "4 * (4279320365927445 / 2251799813685248)" 50]
    fl_scaled [of "4751 / 625" 50]
  by (simp_all add: round_even_def Let_def)

text \<open>A binary64 number below 1 is at most the largest one below 1.\<close>

lemma draw_below_one:
  assumes "fl r = r" "r < 1"
  shows "r \<le> 1 - 1 / 2 ^ 53"
proof (cases "1 / 2 \<le> r")
  case False
  then show ?thesis by simp
next
  case True
  then have "2 ^ 52 \<le> r * 2 ^ 53" "r * 2 ^ 53 < 2 ^ 53" using assms(2) by simp_all
  from fl_scaled [OF this] have "fl r = real_of_int (round_even (r * 2 ^ 53)) / 2 ^ 53" by simp
  with assms(1) have eq: "r * 2 ^ 53 = real_of_int (round_even (r * 2 ^ 53))" by simp
  have "r * 2 ^ 53 < real_of_int (2 ^ 53)" using assms(2) by simp
  with eq have "real_of_int (round_even (r * 2 ^ 53)) < real_of_int (2 ^ 53)" by simp
  then have "round_even (r * 2 ^ 53) < 2 ^ 53" by (simp only: of_int_less_iff)
  then have "round_even (r * 2 ^ 53) \<le> 2 ^ 53 - 1" by simp
  then have "real_of_int (round_even (r * 2 ^ 53)) \<le> real_of_int (2 ^ 53 - 1)"
    by (simp only: of_int_le_iff)
  with eq have "r * 2 ^ 53 \<le> 2 ^ 53 - 1" by simp
  then show ?thesis by (simp add: field_simps)
qed

text \<open>The integers 1 to 4 and the binary64 numbers just below them.\<close>

lemma fl_below:
  "fl (1 - 1 / 2 ^ 53) = 1 - 1 / 2 ^ 53"
  "fl (2 - 2 / 2 ^ 53) = 2 - 2 / 2 ^ 53"
  "fl (3 - 3 / 2 ^ 53) = 3 - 1 / 2 ^ 51"
  "fl (4 - 4 / 2 ^ 53) = 4 - 4 / 2 ^ 53"
  "fl (1 - 1 / 2 ^ 51) = 1 - 1 / 2 ^ 51"
  "fl (2 - 1 / 2 ^ 51) = 2 - 1 / 2 ^ 51"
  "fl (3 - 1 / 2 ^ 51) = 3 - 1 / 2 ^ 51"
  "fl (4 - 1 / 2 ^ 51) = 4 - 1 / 2 ^ 51"
  using fl_scaled [of "1 - 1 / 2 ^ 53" 53] fl_scaled [of "2 - 2 / 2 ^ 53" 52]
    fl_scaled [of "3 - 3 / 2 ^ 53" 51] fl_scaled [of "4 - 4 / 2 ^ 53" 51]
    fl_scaled [of "1 - 1 / 2 ^ 51" 53] fl_scaled [of "2 - 1 / 2 ^ 51" 52]
    fl_scaled [of "3 - 1 / 2 ^ 51" 51] fl_scaled [of "4 - 1 / 2 ^ 51" 51]
  by (simp_all add: round_even_def Let_def)

lemma floor_fl_less:
  assumes "0 \<le> x" "x \<le> real_of_int k - 1 / 2 ^ 51" "1 \<le> k" "k \<le> 4"
  shows "\<lfloor>fl x\<rfloor> < k"
proof -
  from assms(3,4) consider "k = 1" | "k = 2" | "k = 3" | "k = 4" by linarith
  then have "fl (real_of_int k - 1 / 2 ^ 51) = real_of_int k - 1 / 2 ^ 51"
    using fl_below by cases simp_all
  with assms(1,2) have "fl x \<le> real_of_int k - 1 / 2 ^ 51" by (intro fl_le)
  then have "fl x < real_of_int k" by (simp add: algebra_simps add_strict_increasing)
  then show ?thesis by (simp add: floor_less_iff)
qed

lemma floor_fl_ge:
  assumes "real_of_int k \<le> x" "0 \<le> k" "k \<le> 4"
  shows "k \<le> \<lfloor>fl x\<rfloor>"
proof -
  from assms(2,3) consider "k = 0" | "k = 1" | "k = 2" | "k = 3" | "k = 4" by linarith
  then have "fl (real_of_int k) = real_of_int k"
    by cases (simp_all add: fl_small)
  with assms(1,2) have "real_of_int k \<le> fl x" by (intro fl_ge) simp_all
  then show ?thesis by (simp add: le_floor_iff)
qed

text \<open>The pattern index for a binary64 draw in \<open>[0, 1)\<close> and a variety from 1 to 4.\<close>

lemma index_range:
  assumes "0 \<le> r" "r < 1" "fl r = r" "1 \<le> v" "v \<le> 4"
  shows "0 \<le> \<lfloor>fmul r (real_of_int v)\<rfloor> \<and> \<lfloor>fmul r (real_of_int v)\<rfloor> < v"
proof -
  have top: "r \<le> 1 - 1 / 2 ^ 53" using assms(3,2) by (rule draw_below_one)
  have nn: "0 \<le> r * real_of_int v" using assms(1,4) by simp
  then have "0 \<le> fl (r * real_of_int v)" by (rule fl_nonneg)
  then have lower: "0 \<le> \<lfloor>fmul r (real_of_int v)\<rfloor>" by (simp add: fmul_def)
  from assms(4,5) consider "v = 1" | "v = 2" | "v = 3" | "v = 4" by linarith
  then have "fl (r * real_of_int v) < real_of_int v"
  proof cases
    case 1
    have "fl (r * 1) \<le> fl (1 - 1 / 2 ^ 53)" using assms(1) top by (intro fl_mono) simp_all
    then show ?thesis using 1 fl_below(1) by simp
  next
    case 2
    have "r * 2 \<le> 2 - 2 / 2 ^ 53" using top by simp
    then have "fl (r * 2) \<le> fl (2 - 2 / 2 ^ 53)" using assms(1) by (intro fl_mono) simp_all
    then show ?thesis using 2 fl_below(2) by simp
  next
    case 3
    have "r * 3 \<le> 3 - 3 / 2 ^ 53" using top by simp
    then have "fl (r * 3) \<le> fl (3 - 3 / 2 ^ 53)" using assms(1) by (intro fl_mono) simp_all
    then show ?thesis using 3 fl_below(3) by simp
  next
    case 4
    have "r * 4 \<le> 4 - 4 / 2 ^ 53" using top by simp
    then have "fl (r * 4) \<le> fl (4 - 4 / 2 ^ 53)" using assms(1) by (intro fl_mono) simp_all
    then show ?thesis using 4 fl_below(4) by simp
  qed
  then have "\<lfloor>fmul r (real_of_int v)\<rfloor> < v" by (simp add: fmul_def floor_less_iff)
  with lower show ?thesis ..
qed

text \<open>
  The draws that select index \<open>j\<close>: all those of the exact interval but its last
  \<open>2 ^ - 51\<close>, and none outside it but the last \<open>2 ^ - 51\<close> before it (in units of the
  product).
\<close>

lemma index_interval:
  assumes "0 \<le> r" "r < 1" "fl r = r" "1 \<le> v" "v \<le> 4"
  shows "(real_of_int j \<le> r * real_of_int v \<and> r * real_of_int v \<le> real_of_int j + 1 - 1 / 2 ^ 51
            \<longrightarrow> \<lfloor>fmul r (real_of_int v)\<rfloor> = j) \<and>
         (\<lfloor>fmul r (real_of_int v)\<rfloor> = j
            \<longrightarrow> real_of_int j - 1 / 2 ^ 51 < r * real_of_int v \<and> r * real_of_int v < real_of_int j + 1)"
proof (intro conjI impI)
  have nn: "0 \<le> r * real_of_int v" using assms(1,4) by simp
  have lt4: "r * real_of_int v < 4"
  proof -
    have "r * real_of_int v \<le> r * 4" using assms(1,5) by (intro mult_left_mono) simp_all
    also have "\<dots> < 4" using assms(2) by simp
    finally show ?thesis .
  qed
  {
    assume a: "real_of_int j \<le> r * real_of_int v \<and>
      r * real_of_int v \<le> real_of_int j + 1 - 1 / 2 ^ 51"
    then have "real_of_int j < 4" using lt4 by linarith
    then have j3: "j \<le> 3" by linarith
    have "0 \<le> real_of_int j + 1 - 1 / 2 ^ 51" using a nn by linarith
    then have "- 1 < real_of_int j" by (simp add: algebra_simps)
    then have j0: "0 \<le> j" by linarith
    have "j \<le> \<lfloor>fl (r * real_of_int v)\<rfloor>" using a j0 j3 by (intro floor_fl_ge) simp_all
    moreover have "\<lfloor>fl (r * real_of_int v)\<rfloor> < j + 1"
      using a j0 j3 nn by (intro floor_fl_less) simp_all
    ultimately show "\<lfloor>fmul r (real_of_int v)\<rfloor> = j" by (simp add: fmul_def)
  }
  assume b: "\<lfloor>fmul r (real_of_int v)\<rfloor> = j"
  with index_range [OF assms] have j0: "0 \<le> j" and jv: "j < v" by simp_all
  then have j3: "j \<le> 3" using assms(5) by simp
  show "real_of_int j - 1 / 2 ^ 51 < r * real_of_int v"
  proof (rule ccontr)
    assume "\<not> real_of_int j - 1 / 2 ^ 51 < r * real_of_int v"
    then have le: "r * real_of_int v \<le> real_of_int j - 1 / 2 ^ 51" by simp
    with nn have "0 < real_of_int j" by simp
    then have "1 \<le> j" by linarith
    with le nn j3 have "\<lfloor>fl (r * real_of_int v)\<rfloor> < j" by (intro floor_fl_less) simp_all
    with b show False by (simp add: fmul_def)
  qed
  show "r * real_of_int v < real_of_int j + 1"
  proof (rule ccontr)
    assume "\<not> r * real_of_int v < real_of_int j + 1"
    then have "real_of_int (j + 1) \<le> r * real_of_int v" by simp
    then have "j + 1 \<le> \<lfloor>fl (r * real_of_int v)\<rfloor>" using j0 j3 by (intro floor_fl_ge) simp_all
    with b show False by (simp add: fmul_def)
  qed
qed

section \<open>What each part of a frame leaves alone\<close>

lemma push_obstacle_fields:
  "player (push_obstacle ob st) = player st"
  "score (push_obstacle ob st) = score st"
  "gameSpeed (push_obstacle ob st) = gameSpeed st"
  "distance (push_obstacle ob st) = distance st"
  "keys_space (push_obstacle ob st) = keys_space st"
  "particles (push_obstacle ob st) = particles st"
  "lastObstacleTime (push_obstacle ob st) = lastObstacleTime st"
  by (simp_all add: push_obstacle_def)

lemma fold_push_fields:
  "player (fold (\<lambda>i. push_obstacle (f i)) ns st) = player st"
  "score (fold (\<lambda>i. push_obstacle (f i)) ns st) = score st"
  "gameSpeed (fold (\<lambda>i. push_obstacle (f i)) ns st) = gameSpeed st"
  "distance (fold (\<lambda>i. push_obstacle (f i)) ns st) = distance st"
  "keys_space (fold (\<lambda>i. push_obstacle (f i)) ns st) = keys_space st"
  "particles (fold (\<lambda>i. push_obstacle (f i)) ns st) = particles st"
  "lastObstacleTime (fold (\<lambda>i. push_obstacle (f i)) ns st) = lastObstacleTime st"
  by (induction ns arbitrary: st, simp_all add: push_obstacle_fields)+

lemma spawnPattern_fields:
  "player (spawnPattern k i rnd st) = player st"
  "score (spawnPattern k i rnd st) = score st"
  "gameSpeed (spawnPattern k i rnd st) = gameSpeed st"
  "distance (spawnPattern k i rnd st) = distance st"
  "keys_space (spawnPattern k i rnd st) = keys_space st"
  "particles (spawnPattern k i rnd st) = particles st"
  by (simp_all add: spawnPattern_def createSingleObstacle_def createDoubleObstacle_def
      createNarrowGap_def createSpikePattern_def Let_def push_obstacle_fields fold_push_fields)

lemma createObstacle_fields:
  "player (createObstacle now rnd st) = player st"
  "score (createObstacle now rnd st) = score st"
  "gameSpeed (createObstacle now rnd st) = gameSpeed st"
  "distance (createObstacle now rnd st) = distance st"
  "keys_space (createObstacle now rnd st) = keys_space st"
  "particles (createObstacle now rnd st) = particles st"
  by (simp_all add: createObstacle_def Let_def spawnPattern_fields)

lemma fold_particles_fields:
  "player (fold (\<lambda>i s. s\<lparr>particles := particles s @ [f i]\<rparr>) ns st) = player st"
  "score (fold (\<lambda>i s. s\<lparr>particles := particles s @ [f i]\<rparr>) ns st) = score st"
  "gameSpeed (fold (\<lambda>i s. s\<lparr>particles := particles s @ [f i]\<rparr>) ns st) = gameSpeed st"
  "distance (fold (\<lambda>i s. s\<lparr>particles := particles s @ [f i]\<rparr>) ns st) = distance st"
  "keys_space (fold (\<lambda>i s. s\<lparr>particles := particles s @ [f i]\<rparr>) ns st) = keys_space st"
  "obstacles (fold (\<lambda>i s. s\<lparr>particles := particles s @ [f i]\<rparr>) ns st) = obstacles st"
  "lastObstacleTime (fold (\<lambda>i s. s\<lparr>particles := particles s @ [f i]\<rparr>) ns st) = lastObstacleTime st"
  "startTime (fold (\<lambda>i s. s\<lparr>particles := particles s @ [f i]\<rparr>) ns st) = startTime st"
  by (induction ns arbitrary: st, simp_all)+

lemma createParticles_fields:
  "player (createParticles tm rnd cx cy st) = player st"
  "score (createParticles tm rnd cx cy st) = score st"
  "gameSpeed (createParticles tm rnd cx cy st) = gameSpeed st"
  "distance (createParticles tm rnd cx cy st) = distance st"
  "keys_space (createParticles tm rnd cx cy st) = keys_space st"
  "obstacles (createParticles tm rnd cx cy st) = obstacles st"
  "lastObstacleTime (createParticles tm rnd cx cy st) = lastObstacleTime st"
  "startTime (createParticles tm rnd cx cy st) = startTime st"
  unfolding createParticles_def by (rule fold_particles_fields)+

text \<open>The player after the flip has been handled.\<close>

lemma handleFlip_player:
  "player (handleFlip env st) =
     (if keys_space st \<and> \<not> isFlipping (player st)
      then (player st)\<lparr>gravityFlipped := \<not> gravityFlipped (player st), isFlipping := True,
             flipStartTime := now_flip env,
             velocityY := (if \<not> gravityFlipped (player st) then JUMP_FORCE else - JUMP_FORCE)\<rparr>
      else player st)"
  by (simp add: handleFlip_def Let_def createParticles_fields)

lemma handleFlip_fields:
  "score (handleFlip env st) = score st"
  "gameSpeed (handleFlip env st) = gameSpeed st"
  "distance (handleFlip env st) = distance st"
  "keys_space (handleFlip env st) = keys_space st"
  "obstacles (handleFlip env st) = obstacles st"
  "lastObstacleTime (handleFlip env st) = lastObstacleTime st"
  "startTime (handleFlip env st) = startTime st"
  by (simp_all add: handleFlip_def Let_def createParticles_fields)

lemma movePlayer_fields:
  "p_x (movePlayer now p) = p_x p"
  "p_width (movePlayer now p) = p_width p"
  "p_height (movePlayer now p) = p_height p"
  "gravityFlipped (movePlayer now p) = gravityFlipped p"
  "flipStartTime (movePlayer now p) = flipStartTime p"
  by (simp_all add: movePlayer_def groundCeilingCollision_def applyGravity_def
      updateFlipAnimation_def Let_def)

lemma trackDistance_fields:
  "player (game (trackDistance t w)) = player (game w)"
  "score (game (trackDistance t w)) = score (game w)"
  "gameSpeed (game (trackDistance t w)) = gameSpeed (game w)"
  "keys_space (game (trackDistance t w)) = keys_space (game w)"
  "obstacles (game (trackDistance t w)) = obstacles (game w)"
  "lastObstacleTime (game (trackDistance t w)) = lastObstacleTime (game w)"
  "distance (game (trackDistance t w)) = fadd (distance (game w)) (gameSpeed (game w))"
  "storage (trackDistance t w) = storage w"
  "highScore (trackDistance t w) = highScore w"
  "gameOver (trackDistance t w) = gameOver w"
  "gameStarted (trackDistance t w) = gameStarted w"
  by (simp_all add: trackDistance_def Let_def)

lemma beforeObstacles_fields:
  "player (game (beforeObstacles env w)) =
     movePlayer (now_anim env) (player (handleFlip env (game (trackDistance (now_frame env) w))))"
  "score (game (beforeObstacles env w)) = score (game w)"
  "gameSpeed (game (beforeObstacles env w)) = gameSpeed (game w)"
  "keys_space (game (beforeObstacles env w)) = keys_space (game w)"
  "distance (game (beforeObstacles env w)) = fadd (distance (game w)) (gameSpeed (game w))"
  "storage (beforeObstacles env w) = storage w"
  "highScore (beforeObstacles env w) = highScore w"
  "gameOver (beforeObstacles env w) = gameOver w"
  "gameStarted (beforeObstacles env w) = gameStarted w"
  by (simp_all add: beforeObstacles_def Let_def createObstacle_fields handleFlip_fields
      trackDistance_fields)

lemma obstacleCallback_fields:
  "player (game (snd (obstacleCallback hs ob w))) = player (game w)"
  "gameSpeed (game (snd (obstacleCallback hs ob w))) = gameSpeed (game w)"
  "distance (game (snd (obstacleCallback hs ob w))) = distance (game w)"
  "keys_space (game (snd (obstacleCallback hs ob w))) = keys_space (game w)"
  "particles (game (snd (obstacleCallback hs ob w))) = particles (game w)"
  "gameStarted (snd (obstacleCallback hs ob w)) = gameStarted w"
  by (simp_all add: obstacleCallback_def Let_def)

text \<open>Whatever no callback changes, the whole pass over the obstacles leaves unchanged.\<close>

lemma filterObstacles_keeps:
  assumes "\<And>ob w. f (snd (obstacleCallback hs ob w)) = f w"
  shows "f (snd (filterObstacles hs obs w)) = f w"
  by (induction obs arbitrary: w) (simp_all add: split_beta assms)

lemma filterObstacles_fields:
  "player (game (snd (filterObstacles hs obs w))) = player (game w)"
  "gameSpeed (game (snd (filterObstacles hs obs w))) = gameSpeed (game w)"
  "distance (game (snd (filterObstacles hs obs w))) = distance (game w)"
  "keys_space (game (snd (filterObstacles hs obs w))) = keys_space (game w)"
  "particles (game (snd (filterObstacles hs obs w))) = particles (game w)"
  "gameStarted (snd (filterObstacles hs obs w)) = gameStarted w"
  by (rule filterObstacles_keeps, simp add: obstacleCallback_fields)+

lemma updateGame_game:
  "player (game (updateGame hs env w)) = player (game (beforeObstacles env w))"
  "keys_space (game (updateGame hs env w)) = keys_space (game w)"
  "distance (game (updateGame hs env w)) = fadd (distance (game w)) (gameSpeed (game w))"
  by (simp_all add: updateGame_def Let_def split_beta filterObstacles_fields
      beforeObstacles_fields)

lemma updateGame_lastObstacleTime:
  "lastObstacleTime (game (updateGame hs env w)) = lastObstacleTime (game (beforeObstacles env w))"
proof -
  have "lastObstacleTime (game (snd (filterObstacles hs obs v))) = lastObstacleTime (game v)"
    for obs v
    by (rule filterObstacles_keeps) (simp add: obstacleCallback_def Let_def)
  then show ?thesis by (simp add: updateGame_def Let_def split_beta)
qed

lemma updateGame_flags:
  "gameStarted (updateGame hs env w) = gameStarted w"
  "gameOver (updateGame hs env w) =
     gameOver (snd (filterObstacles hs (obstacles (game (beforeObstacles env w)))
        (beforeObstacles env w)))"
  by (simp_all add: updateGame_def Let_def split_beta filterObstacles_fields
      beforeObstacles_fields)

lemma set_space_fields:
  "keys_space (game (set_space b w)) = b"
  "player (game (set_space b w)) = player (game w)"
  by (simp_all add: set_space_def)

lemma startGame_flip:
  "gravityFlipped (player (game (startGame w))) = False"
  "isFlipping (player (game (startGame w))) = False"
  "flipStartTime (player (game (startGame w))) = 0"
  "keys_space (game (startGame w)) = False"
  by (simp_all add: startGame_def Let_def)

lemma startGame_flags: "gameStarted (startGame w)" "\<not> gameOver (startGame w)"
  by (simp_all add: startGame_def Let_def)

lemma set_space_more:
  "obstacles (game (set_space b w)) = obstacles (game w)"
  "score (game (set_space b w)) = score (game w)"
  "lastObstacleTime (game (set_space b w)) = lastObstacleTime (game w)"
  "gameOver (set_space b w) = gameOver w"
  "gameStarted (set_space b w) = gameStarted w"
  "highScore (set_space b w) = highScore w"
  by (simp_all add: set_space_def)

lemma start_state:
  "score (game (startGame w)) = 0"
  "lastObstacleTime (game (startGame w)) = 0"
  "obstacles (game (startGame w)) = []"
  "distance (game (startGame w)) = 0"
  "gameSpeed (game (startGame w)) = 4"
  by (simp_all add: startGame_def Let_def)

lemma level_zero: "getDifficultyLevel 0 = 0" "getObstacleSpacing 0 = 1500" "getObstacleVariety 0 = 1"
  by (simp_all add: getDifficultyLevel_def getObstacleSpacing_def getObstacleVariety_def)

lemma tick_fields:
  "now_frame (tick t) = t" "now_flip (tick t) = t" "now_anim (tick t) = t"
  "now_spawn (tick t) = t" "rnd_spawn (tick t) = half_draws"
  by (simp_all add: tick_def)

section \<open>The flip within a frame\<close>

lemma movePlayer_isFlipping:
  "isFlipping (movePlayer now p) = (isFlipping p \<and> now - flipStartTime p \<le> 300)"
  by (auto simp add: movePlayer_def groundCeilingCollision_def applyGravity_def
      updateFlipAnimation_def Let_def)

text \<open>What one frame does to the flip state of the player.\<close>

lemma updateGame_flip:
  "gravityFlipped (player (game (updateGame hs env w))) =
     (if keys_space (game w) \<and> \<not> isFlipping (player (game w))
      then \<not> gravityFlipped (player (game w)) else gravityFlipped (player (game w)))"
  "flipStartTime (player (game (updateGame hs env w))) =
     (if keys_space (game w) \<and> \<not> isFlipping (player (game w))
      then now_flip env else flipStartTime (player (game w)))"
  "isFlipping (player (game (updateGame hs env w))) =
     (if keys_space (game w) \<and> \<not> isFlipping (player (game w))
      then now_anim env - now_flip env \<le> 300
      else isFlipping (player (game w)) \<and> now_anim env - flipStartTime (player (game w)) \<le> 300)"
  by (simp_all add: updateGame_game beforeObstacles_fields movePlayer_fields
      movePlayer_isFlipping handleFlip_player trackDistance_fields)

section \<open>The pass over the obstacles\<close>

lemma obstacleCallback_kept:
  "fst (obstacleCallback hs ob w) =
     (if offScreen (moveObstacle (gameSpeed (game w)) ob) \<or>
         checkCollision (player (game w)) (moveObstacle (gameSpeed (game w)) ob)
      then None else Some (moveObstacle (gameSpeed (game w)) ob))"
  by (simp add: obstacleCallback_def Let_def moveObstacle_def offScreen_def)

lemma obstacleCallback_score:
  "score (game (snd (obstacleCallback hs ob w))) =
     (if offScreen (moveObstacle (gameSpeed (game w)) ob) then score (game w) + 10
      else score (game w))"
  by (simp add: obstacleCallback_def Let_def moveObstacle_def offScreen_def)

lemma filterObstacles_kept:
  "fst (filterObstacles hs obs w) =
     filter (\<lambda>ob. \<not> offScreen ob \<and> \<not> checkCollision (player (game w)) ob)
       (map (moveObstacle (gameSpeed (game w))) obs)"
proof (induction obs arbitrary: w)
  case Nil
  show ?case by simp
next
  case (Cons ob obs)
  show ?case
    using Cons [of "snd (obstacleCallback hs ob w)"]
    by (simp add: split_beta obstacleCallback_kept obstacleCallback_fields)
qed

lemma filterObstacles_score:
  "score (game (snd (filterObstacles hs obs w))) =
     score (game w) +
     10 * int (length (filter offScreen (map (moveObstacle (gameSpeed (game w))) obs)))"
proof (induction obs arbitrary: w)
  case Nil
  show ?case by simp
next
  case (Cons ob obs)
  show ?case
    using Cons [of "snd (obstacleCallback hs ob w)"]
    by (simp add: split_beta obstacleCallback_score obstacleCallback_fields)
qed

lemma updateGame_obstacles:
  "obstacles (game (updateGame hs env w)) =
     fst (filterObstacles hs (obstacles (game (beforeObstacles env w))) (beforeObstacles env w))"
  by (simp add: updateGame_def Let_def split_beta)

lemma updateGame_score:
  "score (game (updateGame hs env w)) =
     score (game (snd (filterObstacles hs (obstacles (game (beforeObstacles env w)))
        (beforeObstacles env w))))"
  by (simp add: updateGame_def Let_def split_beta)

lemma createObstacle_idle:
  "now - lastObstacleTime st < getObstacleSpacing (getDifficultyLevel (score st)) \<Longrightarrow>
   createObstacle now rnd st = st"
  by (simp add: createObstacle_def Let_def)

lemma beforeObstacles_idle:
  assumes "now_spawn env - lastObstacleTime (game w)
             < getObstacleSpacing (getDifficultyLevel (score (game w)))"
  shows "obstacles (game (beforeObstacles env w)) = obstacles (game w)"
    and "lastObstacleTime (game (beforeObstacles env w)) = lastObstacleTime (game w)"
  using assms
  by (simp_all add: beforeObstacles_def Let_def createObstacle_idle handleFlip_fields
      trackDistance_fields)

text \<open>A frame of a game without obstacles in which none is due.\<close>

lemma updateGame_idle:
  assumes "obstacles (game w) = []"
    and "now_spawn env - lastObstacleTime (game w)
           < getObstacleSpacing (getDifficultyLevel (score (game w)))"
  shows "obstacles (game (updateGame hs env w)) = []"
    and "score (game (updateGame hs env w)) = score (game w)"
    and "lastObstacleTime (game (updateGame hs env w)) = lastObstacleTime (game w)"
    and "gameOver (updateGame hs env w) = gameOver w"
  using assms beforeObstacles_idle [OF assms(2)]
  by (simp_all add: updateGame_obstacles updateGame_score updateGame_lastObstacleTime
      updateGame_flags beforeObstacles_fields)

section \<open>The player stays between ceiling and ground\<close>

lemma falling_flip:
  "falling p \<Longrightarrow>
   falling (p\<lparr>gravityFlipped := \<not> gravityFlipped p, isFlipping := True, flipStartTime := t,
             velocityY := (if \<not> gravityFlipped p then JUMP_FORCE else - JUMP_FORCE)\<rparr>)"
  by (simp add: falling_def inBand_def JUMP_FORCE_def)

lemma falling_animation: "falling p \<Longrightarrow> falling (updateFlipAnimation now p)"
  by (simp add: falling_def inBand_def updateFlipAnimation_def)

lemma falling_move:
  assumes "falling p"
  shows "falling (groundCeilingCollision (applyGravity p))"
proof (cases "gravityFlipped p")
  case True
  with assms have "velocityY p \<le> 0" "getCeilingY \<le> p_y p" "p_y p + p_height p \<le> getGroundY"
    by (simp_all add: falling_def inBand_def)
  with True show ?thesis
    by (simp add: falling_def inBand_def groundCeilingCollision_def applyGravity_def Let_def
        GRAVITY_def getCeilingY_def getGroundY_def canvas_height_def)
next
  case False
  with assms have "0 \<le> velocityY p" "getCeilingY \<le> p_y p" "p_y p + p_height p \<le> getGroundY"
    by (simp_all add: falling_def inBand_def)
  with False show ?thesis
    by (simp add: falling_def inBand_def groundCeilingCollision_def applyGravity_def Let_def
        GRAVITY_def getCeilingY_def getGroundY_def canvas_height_def)
qed

lemma falling_movePlayer: "falling p \<Longrightarrow> falling (movePlayer now p)"
  unfolding movePlayer_def by (intro falling_move falling_animation)

lemma falling_updateGame:
  assumes "falling (player (game w))"
  shows "falling (player (game (updateGame hs env w)))"
proof -
  have "falling (player (handleFlip env (game (trackDistance (now_frame env) w))))"
    using assms falling_flip [OF assms, of "now_flip env"]
    by (simp add: handleFlip_player trackDistance_fields)
  then show ?thesis
    by (simp add: updateGame_game beforeObstacles_fields falling_movePlayer)
qed

lemma falling_startGame: "falling (player (game (startGame w)))"
  by (simp add: startGame_def Let_def falling_def inBand_def getCeilingY_def getGroundY_def
      canvas_height_def getPlayerSize_def)

lemma falling_set_space: "falling (player (game (set_space b w))) = falling (player (game w))"
  by (simp add: set_space_def)

lemma falling_handle:
  "falling (player (game w)) \<Longrightarrow> falling (player (game (handle e w)))"
  by (cases e)
    (simp_all add: handleKeyDown_def handleKeyUp_def handleTouch_def gameLoop_def
      falling_startGame falling_set_space falling_updateGame)

lemma falling_run:
  "falling (player (game w)) \<Longrightarrow> falling (player (game (run evs w)))"
  unfolding run_def by (induction evs arbitrary: w) (simp_all add: falling_handle)

section \<open>Game speed\<close>

lemma updateGame_speed: "gameSpeed (game (updateGame hs env w)) = nextSpeed (game (updateGame hs env w))"
  by (simp add: updateGame_def Let_def split_beta nextSpeed_def)

lemma nextSpeed_formula:
  "nextSpeed st =
     min 12 (fmul 4 (fadd (fadd 1 (fmul (real_of_int \<lfloor>real_of_int (score st) / 100\<rfloor>) (fl 0.3)))
                          (fmul (distance st) (fl 0.0001))))"
  by (simp add: nextSpeed_def Let_def getDifficultyLevel_def)

lemma nextSpeed_mono:
  assumes "getDifficultyLevel (score a) \<le> getDifficultyLevel (score b)"
    and "distance a \<le> distance b"
  shows "nextSpeed a \<le> nextSpeed b"
proof -
  have c: "0 \<le> fl 0.3" "0 \<le> fl 0.0001" by (simp_all add: fl_nonneg)
  have "real_of_int (getDifficultyLevel (score a)) * fl 0.3
      \<le> real_of_int (getDifficultyLevel (score b)) * fl 0.3"
    using assms(1) c(1) by (simp add: mult_right_mono)
  then have "1 + fl (real_of_int (getDifficultyLevel (score a)) * fl 0.3)
      \<le> 1 + fl (real_of_int (getDifficultyLevel (score b)) * fl 0.3)"
    by (simp add: fl_mono_all)
  then have l: "fl (1 + fl (real_of_int (getDifficultyLevel (score a)) * fl 0.3))
      \<le> fl (1 + fl (real_of_int (getDifficultyLevel (score b)) * fl 0.3))"
    by (rule fl_mono_all)
  have "distance a * fl 0.0001 \<le> distance b * fl 0.0001"
    using assms(2) c(2) by (simp add: mult_right_mono)
  then have "fl (distance a * fl 0.0001) \<le> fl (distance b * fl 0.0001)"
    by (rule fl_mono_all)
  with l have "fl (1 + fl (real_of_int (getDifficultyLevel (score a)) * fl 0.3))
        + fl (distance a * fl 0.0001)
      \<le> fl (1 + fl (real_of_int (getDifficultyLevel (score b)) * fl 0.3))
        + fl (distance b * fl 0.0001)"
    by (rule add_mono)
  then have "fl (fl (1 + fl (real_of_int (getDifficultyLevel (score a)) * fl 0.3))
        + fl (distance a * fl 0.0001))
      \<le> fl (fl (1 + fl (real_of_int (getDifficultyLevel (score b)) * fl 0.3))
        + fl (distance b * fl 0.0001))"
    by (rule fl_mono_all)
  then have "4 * fl (fl (1 + fl (real_of_int (getDifficultyLevel (score a)) * fl 0.3))
        + fl (distance a * fl 0.0001))
      \<le> 4 * fl (fl (1 + fl (real_of_int (getDifficultyLevel (score b)) * fl 0.3))
        + fl (distance b * fl 0.0001))"
    by simp
  then have "fl (4 * fl (fl (1 + fl (real_of_int (getDifficultyLevel (score a)) * fl 0.3))
        + fl (distance a * fl 0.0001)))
      \<le> fl (4 * fl (fl (1 + fl (real_of_int (getDifficultyLevel (score b)) * fl 0.3))
        + fl (distance b * fl 0.0001)))"
    by (rule fl_mono_all)
  then show ?thesis
    unfolding nextSpeed_def Let_def fadd_def fmul_def by (rule min.mono [OF order_refl])
qed

lemma nextSpeed_nonneg:
  assumes "0 \<le> score st" "0 \<le> distance st"
  shows "0 \<le> nextSpeed st"
proof -
  have "0 \<le> getDifficultyLevel (score st)" using assms(1) by (simp add: getDifficultyLevel_def)
  then have "0 \<le> real_of_int (getDifficultyLevel (score st)) * fl 0.3"
    by (simp add: fl_nonneg)
  then have "0 \<le> fmul (real_of_int (getDifficultyLevel (score st))) (fl 0.3)"
    unfolding fmul_def by (rule fl_nonneg)
  then have a: "0 \<le> fadd 1 (fmul (real_of_int (getDifficultyLevel (score st))) (fl 0.3))"
    unfolding fadd_def by (intro fl_nonneg) simp
  have "0 \<le> distance st * fl 0.0001" using assms(2) by (simp add: fl_nonneg)
  then have "0 \<le> fmul (distance st) (fl 0.0001)" unfolding fmul_def by (rule fl_nonneg)
  with a have "0 \<le> fadd (fadd 1 (fmul (real_of_int (getDifficultyLevel (score st))) (fl 0.3)))
      (fmul (distance st) (fl 0.0001))"
    unfolding fadd_def [of "fadd 1 (fmul (real_of_int (getDifficultyLevel (score st))) (fl 0.3))"]
    by (intro fl_nonneg) simp
  then have "0 \<le> fmul 4 (fadd (fadd 1 (fmul (real_of_int (getDifficultyLevel (score st))) (fl 0.3)))
      (fmul (distance st) (fl 0.0001)))"
    unfolding fmul_def [of 4] by (intro fl_nonneg) simp
  then show ?thesis by (simp add: nextSpeed_def Let_def)
qed

lemma nextSpeed_0_4:
  assumes "score st = 0" "distance st = 4"
  shows "nextSpeed st = 1126350266805361 / 281474976710656"
proof -
  have "nextSpeed st = min 12 (fl (4 * fl (fl (1 + fl (0 * fl (3 / 10))) + fl (4 * fl (1 / 10000)))))"
    using assms by (simp add: nextSpeed_def Let_def getDifficultyLevel_def fadd_def fmul_def)
  also have "\<dots> = min 12 (fl (4 * fl (1 + fl (4 * (7378697629483821 / 73786976294838206464)))))"
    by (simp only: fl_literals mult_zero_left fl_zero add_0_right fl_small)
  also have "\<dots> = min 12 (1126350266805361 / 281474976710656)"
    by (simp only: speed_steps_0)
  also have "\<dots> = 1126350266805361 / 281474976710656" by simp
  finally show ?thesis .
qed

lemma nextSpeed_300_4:
  assumes "score st = 300" "distance st = 4"
  shows "nextSpeed st = 4279320365927445 / 562949953421312"
proof -
  have "\<lfloor>real_of_int 300 / 100\<rfloor> = (3::int)" by simp
  then have "nextSpeed st =
      min 12 (fl (4 * fl (fl (1 + fl (3 * fl (3 / 10))) + fl (4 * fl (1 / 10000)))))"
    using assms by (simp add: nextSpeed_def Let_def getDifficultyLevel_def fadd_def fmul_def)
  also have "\<dots> = min 12 (fl (4 * fl (fl (1 + fl (3 * (5404319552844595 / 18014398509481984)))
      + fl (4 * (7378697629483821 / 73786976294838206464)))))"
    by (simp only: fl_literals)
  also have "\<dots> = min 12 (4279320365927445 / 562949953421312)"
    by (simp only: speed_steps_3 speed_steps_0)
  also have "\<dots> = 4279320365927445 / 562949953421312" by simp
  finally show ?thesis .
qed

lemma first_frame:
  "score (game (updateGame 0 (tick 1000) (startGame (mount None)))) = 0"
  "distance (game (updateGame 0 (tick 1000) (startGame (mount None)))) = 4"
  "obstacles (game (updateGame 0 (tick 1000) (startGame (mount None)))) = []"
  "lastObstacleTime (game (updateGame 0 (tick 1000) (startGame (mount None)))) = 0"
  by (simp_all add: updateGame_idle start_state level_zero tick_fields updateGame_game(3)
      fadd_def fl_small)

lemma level3_frame:
  "score (game (updateGame 0 (tick 1000)
     ((startGame (mount None))\<lparr>game := (game (startGame (mount None)))\<lparr>score := 300\<rparr>\<rparr>))) = 300"
  "distance (game (updateGame 0 (tick 1000)
     ((startGame (mount None))\<lparr>game := (game (startGame (mount None)))\<lparr>score := 300\<rparr>\<rparr>))) = 4"
  by (simp_all add: updateGame_idle start_state tick_fields updateGame_game(3)
      fadd_def fl_small getDifficultyLevel_def getObstacleSpacing_def)

lemma speed_handle: "gameSpeed (game w) \<le> 12 \<Longrightarrow> gameSpeed (game (handle e w)) \<le> 12"
  by (cases e)
    (simp_all add: handleKeyDown_def handleKeyUp_def handleTouch_def gameLoop_def
      set_space_def startGame_def Let_def updateGame_speed nextSpeed_def)

lemma speed_run: "gameSpeed (game w) \<le> 12 \<Longrightarrow> gameSpeed (game (run evs w)) \<le> 12"
  unfolding run_def by (induction evs arbitrary: w) (simp_all add: speed_handle)

section \<open>The stored high score\<close>

lemma obstacleCallback_storage:
  "storage (snd (obstacleCallback hs ob w)) =
     (if \<not> offScreen (moveObstacle (gameSpeed (game w)) ob) \<and>
         checkCollision (player (game w)) (moveObstacle (gameSpeed (game w)) ob) \<and>
         score (game w) > hs
      then Some (score (game w)) else storage w)"
  by (simp add: obstacleCallback_def Let_def moveObstacle_def offScreen_def)

lemma obstacleCallback_inSync:
  "inSync hs w \<Longrightarrow> inSync hs (snd (obstacleCallback hs ob w))"
  by (auto simp add: inSync_def obstacleCallback_storage obstacleCallback_score
      loadHighScore_def split: option.splits)

lemma obstacleCallback_recordScore:
  "inSync hs w \<Longrightarrow>
   storage (snd (obstacleCallback hs ob w)) =
     (if \<not> offScreen (moveObstacle (gameSpeed (game w)) ob) \<and>
         checkCollision (player (game w)) (moveObstacle (gameSpeed (game w)) ob)
      then recordScore (score (game w)) (storage w) else storage w)"
  by (auto simp add: inSync_def obstacleCallback_storage recordScore_def loadHighScore_def
      split: option.splits)

lemma filterObstacles_storage:
  "inSync hs w \<Longrightarrow>
   storage (snd (filterObstacles hs obs w)) =
     storedAfter (gameSpeed (game w)) (player (game w)) obs (score (game w)) (storage w)"
proof (induction obs arbitrary: w)
  case Nil
  show ?case by simp
next
  case (Cons ob obs)
  have "inSync hs (snd (obstacleCallback hs ob w))"
    using Cons.prems by (rule obstacleCallback_inSync)
  from Cons.IH [OF this] show ?case
    by (simp add: split_beta obstacleCallback_fields obstacleCallback_score
        obstacleCallback_recordScore [OF Cons.prems])
qed

lemma obstacleCallback_mirror:
  "highScore w = loadHighScore (storage w) \<Longrightarrow>
   highScore (snd (obstacleCallback hs ob w)) = loadHighScore (storage (snd (obstacleCallback hs ob w)))"
  by (simp add: obstacleCallback_def Let_def loadHighScore_def)

lemma filterObstacles_mirror:
  "highScore w = loadHighScore (storage w) \<Longrightarrow>
   highScore (snd (filterObstacles hs obs w)) = loadHighScore (storage (snd (filterObstacles hs obs w)))"
  by (induction obs arbitrary: w) (simp_all add: split_beta obstacleCallback_mirror)

lemma updateGame_store:
  "storage (updateGame hs env w) =
     storage (snd (filterObstacles hs (obstacles (game (beforeObstacles env w))) (beforeObstacles env w)))"
  "highScore (updateGame hs env w) =
     highScore (snd (filterObstacles hs (obstacles (game (beforeObstacles env w))) (beforeObstacles env w)))"
  by (simp_all add: updateGame_def Let_def split_beta)

lemma mirror_handle:
  "highScore w = loadHighScore (storage w) \<Longrightarrow>
   highScore (handle e w) = loadHighScore (storage (handle e w))"
  by (cases e)
    (simp_all add: handleKeyDown_def handleKeyUp_def handleTouch_def gameLoop_def
      set_space_def startGame_def Let_def updateGame_store filterObstacles_mirror
      beforeObstacles_fields)

lemma mirror_run:
  "highScore w = loadHighScore (storage w) \<Longrightarrow>
   highScore (run evs w) = loadHighScore (storage (run evs w))"
  unfolding run_def by (induction evs arbitrary: w) (simp_all add: mirror_handle)

lemma mirror_mount: "highScore (run evs (mount item)) = loadHighScore (storage (run evs (mount item)))"
  by (rule mirror_run) (simp add: mount_def)

section \<open>What the generators push\<close>

lemma obstacles_push: "obstacles (push_obstacle ob st) = obstacles st @ [ob]"
  by (simp add: push_obstacle_def)

lemma obstacles_fold_push:
  "obstacles (fold (\<lambda>i. push_obstacle (f i)) ns st) = obstacles st @ map f ns"
  by (induction ns arbitrary: st) (simp_all add: obstacles_push)

lemma appended_single:
  "appended st (createSingleObstacle i rnd st) =
     [\<lparr>o_id = i, o_x = canvas_width,
       o_y = (if rnd 0 < 0.5 then getCeilingY else getGroundY - canvas_height * (0.15 + rnd 1 * 0.15)),
       o_width = 20, o_height = canvas_height * (0.15 + rnd 1 * 0.15), isTop = (rnd 0 < 0.5)\<rparr>]"
  by (simp add: appended_def createSingleObstacle_def Let_def obstacles_push)

lemma appended_double:
  "appended st (createDoubleObstacle i st) =
     [\<lparr>o_id = i, o_x = canvas_width, o_y = getCeilingY, o_width = 20,
       o_height = canvas_height * 0.2, isTop = True\<rparr>,
      \<lparr>o_id = i + 0.1, o_x = canvas_width,
       o_y = getGroundY - (canvas_height - canvas_height * 0.4 - canvas_height * 0.2 - 100),
       o_width = 20,
       o_height = canvas_height - canvas_height * 0.4 - canvas_height * 0.2 - 100,
       isTop = False\<rparr>]"
  by (simp add: appended_def createDoubleObstacle_def Let_def obstacles_push)

lemma appended_narrow:
  "appended st (createNarrowGap i rnd st) =
     [\<lparr>o_id = i, o_x = canvas_width, o_y = getCeilingY, o_width = 25,
       o_height = 50 + rnd 0 * 330, isTop = True\<rparr>,
      \<lparr>o_id = i + 0.1, o_x = canvas_width, o_y = 260 + rnd 0 * 330, o_width = 25,
       o_height = 330 - rnd 0 * 330, isTop = False\<rparr>]"
  by (simp add: appended_def createNarrowGap_def Let_def obstacles_push
      canvas_height_def getCeilingY_def getGroundY_def)

lemma appended_spikes:
  "appended st (createSpikePattern i rnd st) = map (spike i rnd) [0..<nat (3 + \<lfloor>rnd 0 * 3\<rfloor>)]"
  by (simp add: appended_def createSpikePattern_def Let_def obstacles_fold_push)

lemma appended_createObstacle:
  "appended st (createObstacle now rnd st) =
     (if now - lastObstacleTime st < getObstacleSpacing (getDifficultyLevel (score st)) then []
      else appended st
        (spawnPattern
           \<lfloor>fmul (rnd 0) (real_of_int (getObstacleVariety (getDifficultyLevel (score st))))\<rfloor>
           (real_of_int now) (\<lambda>n. rnd (Suc n)) st))"
  by (simp add: createObstacle_def Let_def appended_def)

lemma lastObstacleTime_createObstacle:
  "lastObstacleTime (createObstacle now rnd st) =
     (if now - lastObstacleTime st < getObstacleSpacing (getDifficultyLevel (score st))
      then lastObstacleTime st else now)"
  by (simp add: createObstacle_def Let_def)

lemma positive_single:
  assumes "\<forall>n. 0 \<le> rnd n \<and> rnd n < (1::real)"
  shows "list_all positive_size (appended st (createSingleObstacle i rnd st))"
proof -
  have "0 \<le> rnd 1" using assms by simp
  then have "0 < canvas_height * (0.15 + rnd 1 * 0.15)"
    by (simp add: canvas_height_def add_pos_nonneg)
  then show ?thesis by (simp add: appended_single positive_size_def)
qed

lemma positive_double: "list_all positive_size (appended st (createDoubleObstacle i st))"
  by (simp add: appended_double positive_size_def canvas_height_def)

lemma positive_narrow:
  assumes "\<forall>n. 0 \<le> rnd n \<and> rnd n < (1::real)"
  shows "list_all positive_size (appended st (createNarrowGap i rnd st))"
proof -
  have "0 \<le> rnd 0" "rnd 0 < 1" using assms by simp_all
  then have "0 < 50 + rnd 0 * 330" "0 < 330 - rnd 0 * 330"
    by (simp_all add: add_pos_nonneg)
  then show ?thesis by (simp add: appended_narrow positive_size_def)
qed

lemma positive_spike:
  assumes "\<forall>n. 0 \<le> rnd n \<and> rnd n < (1::real)"
  shows "positive_size (spike i rnd k)"
proof -
  have "0 \<le> rnd (2 + 2 * k)" using assms by simp
  then have "0 < 40 + rnd (2 + 2 * k) * 60" by (simp add: add_pos_nonneg)
  then show ?thesis by (simp add: spike_def Let_def positive_size_def)
qed

lemma positive_spikes:
  assumes "\<forall>n. 0 \<le> rnd n \<and> rnd n < (1::real)"
  shows "list_all positive_size (appended st (createSpikePattern i rnd st))"
  using positive_spike [OF assms] by (simp add: appended_spikes list_all_iff)

lemma positive_spawnPattern:
  assumes "\<forall>n. 0 \<le> rnd n \<and> rnd n < (1::real)"
  shows "list_all positive_size (appended st (spawnPattern k i rnd st))"
  using positive_single [OF assms] positive_double positive_narrow [OF assms]
    positive_spikes [OF assms]
  by (simp add: spawnPattern_def)

lemma clear_single: "list_all (spawnColumnClear (player (game (startGame w))))
    (appended st (createSingleObstacle i rnd st))"
  by (simp add: appended_single spawnColumnClear_def startGame_def Let_def canvas_width_def
      getPlayerSize_def)

lemma clear_double: "list_all (spawnColumnClear (player (game (startGame w))))
    (appended st (createDoubleObstacle i st))"
  by (simp add: appended_double spawnColumnClear_def startGame_def Let_def canvas_width_def
      getPlayerSize_def)

lemma clear_narrow: "list_all (spawnColumnClear (player (game (startGame w))))
    (appended st (createNarrowGap i rnd st))"
  by (simp add: appended_narrow spawnColumnClear_def startGame_def Let_def canvas_width_def
      getPlayerSize_def)

lemma clear_spike: "spawnColumnClear (player (game (startGame w))) (spike i rnd k)"
proof -
  have "(0::real) \<le> real k * 15" by simp
  then show ?thesis
    by (simp add: spike_def spawnColumnClear_def startGame_def Let_def canvas_width_def
        getPlayerSize_def add_pos_nonneg)
qed

lemma clear_spikes: "list_all (spawnColumnClear (player (game (startGame w))))
    (appended st (createSpikePattern i rnd st))"
  by (simp add: appended_spikes list_all_iff clear_spike)

lemma variety_range: "0 \<le> sc \<Longrightarrow> 1 \<le> getObstacleVariety (getDifficultyLevel sc) \<and> getObstacleVariety (getDifficultyLevel sc) \<le> 4"
proof -
  assume "0 \<le> sc"
  then have "0 \<le> getDifficultyLevel sc" by (simp add: getDifficultyLevel_def)
  then have "0 \<le> \<lfloor>real_of_int (getDifficultyLevel sc) / 2\<rfloor>" by simp
  then show ?thesis by (simp add: getObstacleVariety_def)
qed

section \<open>The patterns as computed\<close>

lemma eighth_le: "1 / 8 \<le> fl 0.15" "1 / 8 \<le> fl 0.2"
  by (rule fl_ge; simp add: fl_consts)+

lemma single_height_d:
  assumes "0 \<le> r"
  shows "80 \<le> fmul canvas_height (fadd (fl 0.15) (fmul r (fl 0.15)))"
proof -
  have c: "1 / 8 \<le> fl 0.15" by (rule eighth_le)
  then have "0 \<le> r * fl 0.15" using assms by simp
  then have "0 \<le> fl (r * fl 0.15)" by (rule fl_nonneg)
  with c have "1 / 8 \<le> fl 0.15 + fl (r * fl 0.15)" by linarith
  then have "1 / 8 \<le> fl (fl 0.15 + fl (r * fl 0.15))"
    by (intro fl_ge) (simp_all add: fl_consts)
  then have "80 \<le> 640 * fl (fl 0.15 + fl (r * fl 0.15))" by simp
  then have "80 \<le> fl (640 * fl (fl 0.15 + fl (r * fl 0.15)))"
    by (intro fl_ge) (simp_all add: fl_consts)
  then show ?thesis by (simp add: fmul_def fadd_def canvas_height_def)
qed

lemma double_heights_d:
  "80 \<le> fmul canvas_height (fl 0.2)"
  "60 \<le> fsub (fsub (fsub canvas_height (fmul canvas_height (fl 0.4)))
            (fmul canvas_height (fl 0.2))) 100"
proof -
  have "80 \<le> 640 * fl 0.2" using eighth_le(2) by simp
  then show t: "80 \<le> fmul canvas_height (fl 0.2)"
    unfolding fmul_def canvas_height_def by (intro fl_ge) (simp_all add: fl_consts)
  have "0 \<le> fl 0.2" "fl 0.2 \<le> 1 / 4"
    by (rule fl_nonneg, simp, rule fl_le, simp_all add: fl_consts)
  then have "0 \<le> 640 * fl 0.2" "640 * fl 0.2 \<le> 160" by simp_all
  then have t160: "fl (640 * fl 0.2) \<le> 160" by (intro fl_le) (simp_all add: fl_consts)
  have "0 \<le> fl 0.4" "fl 0.4 \<le> 1 / 2"
    by (rule fl_nonneg, simp, rule fl_le, simp_all add: fl_consts)
  then have "0 \<le> 640 * fl 0.4" "640 * fl 0.4 \<le> 320" by simp_all
  then have "fl (640 * fl 0.4) \<le> 320" by (intro fl_le) (simp_all add: fl_consts)
  then have "320 \<le> 640 - fl (640 * fl 0.4)" by simp
  then have "320 \<le> fl (640 - fl (640 * fl 0.4))" by (intro fl_ge) (simp_all add: fl_consts)
  with t160 have "160 \<le> fl (640 - fl (640 * fl 0.4)) - fl (640 * fl 0.2)" by linarith
  then have "160 \<le> fl (fl (640 - fl (640 * fl 0.4)) - fl (640 * fl 0.2))"
    by (intro fl_ge) (simp_all add: fl_consts)
  then have "60 \<le> fl (fl (640 - fl (640 * fl 0.4)) - fl (640 * fl 0.2)) - 100" by simp
  then have "60 \<le> fl (fl (fl (640 - fl (640 * fl 0.4)) - fl (640 * fl 0.2)) - 100)"
    by (intro fl_ge) (simp_all add: fl_consts)
  then show "60 \<le> fsub (fsub (fsub canvas_height (fmul canvas_height (fl 0.4)))
            (fmul canvas_height (fl 0.2))) 100"
    by (simp add: fsub_def fmul_def canvas_height_def)
qed

lemma narrow_span_d:
  "max 80 (fmul canvas_height (fl 0.25)) = 160"
  "fsub (fsub canvas_height 160) 150 = 330"
  "fadd getCeilingY 50 = 100"
  by (simp_all add: fmul_def fsub_def fadd_def canvas_height_def getCeilingY_def fl_consts)

lemma appended_narrow_d:
  "appended st (createNarrowGap_d i rnd st) =
     [\<lparr>o_id = i, o_x = canvas_width, o_y = getCeilingY, o_width = 25,
       o_height = fl (fl (100 + fl (rnd 0 * 330)) - 50), isTop = True\<rparr>,
      \<lparr>o_id = fl (i + fl 0.1), o_x = canvas_width,
       o_y = fl (fl (100 + fl (rnd 0 * 330)) + 160), o_width = 25,
       o_height = fl (590 - fl (fl (100 + fl (rnd 0 * 330)) + 160)), isTop = False\<rparr>]"
  unfolding createNarrowGap_d_def Let_def narrow_span_d
  by (simp add: appended_def obstacles_push fadd_def fsub_def fmul_def getCeilingY_def
      getGroundY_def canvas_height_def)

lemma narrow_start_d:
  assumes "0 \<le> r" "r < 1"
  shows "100 \<le> fl (100 + fl (r * 330)) \<and> fl (100 + fl (r * 330)) \<le> 430"
proof -
  have "0 \<le> r * 330" "r * 330 \<le> 330" using assms by simp_all
  then have "0 \<le> fl (r * 330)" and "fl (r * 330) \<le> 330"
    by (simp_all add: fl_nonneg fl_le fl_consts)
  then have "100 \<le> 100 + fl (r * 330)" "100 + fl (r * 330) \<le> 430" by simp_all
  then show ?thesis
    by (intro conjI fl_ge fl_le) (simp_all add: fl_consts)
qed

lemma narrow_heights_d:
  assumes "0 \<le> r" "r < 1"
  shows "50 \<le> fl (fl (100 + fl (r * 330)) - 50)"
    and "0 \<le> fl (590 - fl (fl (100 + fl (r * 330)) + 160))"
proof -
  note g = narrow_start_d [OF assms]
  then have "50 \<le> fl (100 + fl (r * 330)) - 50" by simp
  then show "50 \<le> fl (fl (100 + fl (r * 330)) - 50)"
    by (intro fl_ge) (simp_all add: fl_consts)
  from g have "0 \<le> fl (100 + fl (r * 330)) + 160" "fl (100 + fl (r * 330)) + 160 \<le> 590"
    by simp_all
  then have "fl (fl (100 + fl (r * 330)) + 160) \<le> 590"
    by (intro fl_le) (simp_all add: fl_consts)
  then have "0 \<le> 590 - fl (fl (100 + fl (r * 330)) + 160)" by simp
  then show "0 \<le> fl (590 - fl (fl (100 + fl (r * 330)) + 160))" by (rule fl_nonneg)
qed

lemma spike_height_d:
  assumes "0 \<le> r"
  shows "40 \<le> fadd 40 (fmul r 60)"
proof -
  have "0 \<le> r * 60" using assms by simp
  then have "0 \<le> fl (r * 60)" by (rule fl_nonneg)
  then have "40 \<le> 40 + fl (r * 60)" by simp
  then show ?thesis unfolding fadd_def fmul_def by (intro fl_ge) (simp_all add: fl_consts)
qed

lemma sizes_single_d:
  assumes "\<forall>n. 0 \<le> rnd n \<and> rnd n < (1::real)"
  shows "list_all positive_size (appended st (createSingleObstacle_d i rnd st))"
proof -
  have "0 \<le> rnd 1" using assms by simp
  from single_height_d [OF this] show ?thesis
    by (simp add: createSingleObstacle_d_def Let_def appended_def obstacles_push
        positive_size_def)
qed

lemma sizes_double_d: "list_all positive_size (appended st (createDoubleObstacle_d i st))"
  using double_heights_d
  by (simp add: createDoubleObstacle_d_def Let_def appended_def obstacles_push
      positive_size_def)

lemma sizes_narrow_d:
  assumes "\<forall>n. 0 \<le> rnd n \<and> rnd n < (1::real)"
  shows "list_all sound_size (appended st (createNarrowGap_d i rnd st))"
    and "positive_size (hd (appended st (createNarrowGap_d i rnd st)))"
proof -
  have "0 \<le> rnd 0" "rnd 0 < 1" using assms by simp_all
  from narrow_heights_d [OF this]
  show "list_all sound_size (appended st (createNarrowGap_d i rnd st))"
    and "positive_size (hd (appended st (createNarrowGap_d i rnd st)))"
    by (simp_all add: appended_narrow_d sound_size_def positive_size_def)
qed

lemma sizes_spikes_d:
  assumes "\<forall>n. 0 \<le> rnd n \<and> rnd n < (1::real)"
  shows "list_all positive_size (appended st (createSpikePattern_d i rnd st))"
proof -
  have "positive_size (spike_d i rnd k)" for k
  proof -
    have "0 \<le> rnd (2 + 2 * k)" using assms by simp
    from spike_height_d [OF this] show ?thesis
      by (simp add: spike_d_def Let_def positive_size_def)
  qed
  then show ?thesis
    by (simp add: createSpikePattern_d_def Let_def appended_def obstacles_fold_push
        list_all_iff)
qed

lemma top_draw_steps:
  "fl ((1 - 1 / 2 ^ 53) * 330) = 330 - 1 / 2 ^ 44"
  "fl (100 + (330 - 1 / 2 ^ 44)) = 430 - 1 / 2 ^ 44"
  "fl (430 - 1 / 2 ^ 44 + 160) = 590"
  "fl (430 - 1 / 2 ^ 44 - 50) = 380 - 1 / 2 ^ 44"
  using fl_scaled [of "(1 - 1 / 2 ^ 53) * 330" 44]
    fl_scaled [of "100 + (330 - 1 / 2 ^ 44)" 44]
    fl_scaled [of "430 - 1 / 2 ^ 44 + 160" 43]
    fl_scaled [of "430 - 1 / 2 ^ 44 - 50" 44]
  by (simp_all add: round_even_def Let_def)

lemma top_draw_heights:
  "map o_height (appended st (createNarrowGap_d i top_draws st)) = [380 - 1 / 2 ^ 44, 0]"
proof -
  have "map o_height (appended st (createNarrowGap_d i top_draws st)) =
      [fl (fl (100 + fl ((1 - 1 / 2 ^ 53) * 330)) - 50),
       fl (590 - fl (fl (100 + fl ((1 - 1 / 2 ^ 53) * 330)) + 160))]"
    by (simp only: appended_narrow_d top_draws_def list.map obstacle.simps)
  also have "\<dots> = [380 - 1 / 2 ^ 44, fl (590 - 590)]"
    by (simp only: top_draw_steps)
  also have "\<dots> = [380 - 1 / 2 ^ 44, 0]" by simp
  finally show ?thesis .
qed

lemma clear_generators_d:
  "list_all (spawnColumnClear (player (game (startGame w))))
     (appended st (createSingleObstacle_d i rnd st))"
  "list_all (spawnColumnClear (player (game (startGame w))))
     (appended st (createDoubleObstacle_d i st))"
  by (simp_all add: createSingleObstacle_d_def createDoubleObstacle_d_def
      Let_def appended_def obstacles_push spawnColumnClear_def startGame_def canvas_width_def
      getPlayerSize_def)

lemma clear_narrow_d:
  "list_all (spawnColumnClear (player (game (startGame w))))
     (appended st (createNarrowGap_d i rnd st))"
  by (simp add: appended_narrow_d spawnColumnClear_def startGame_def Let_def canvas_width_def
      getPlayerSize_def)

lemma clear_spikes_d:
  "list_all (spawnColumnClear (player (game (startGame w))))
     (appended st (createSpikePattern_d i rnd st))"
proof -
  have "spawnColumnClear (player (game (startGame w))) (spike_d i rnd k)" for k
  proof -
    have "0 \<le> real k * 15" by simp
    then have "0 \<le> fl (real k * 15)" by (rule fl_nonneg)
    then have "360 \<le> 360 + fl (real k * 15)" by simp
    then have "360 \<le> fl (360 + fl (real k * 15))"
      by (intro fl_ge) (simp_all add: fl_consts)
    then show ?thesis
      by (simp add: spike_d_def Let_def spawnColumnClear_def startGame_def canvas_width_def
          getPlayerSize_def fadd_def fmul_def)
  qed
  then show ?thesis
    by (simp add: createSpikePattern_d_def Let_def appended_def obstacles_fold_push
        list_all_iff)
qed

section \<open>The claims\<close>

subsection \<open>C1: a second flip request inside the animation window\<close>

text \<open>
  Counterexample to C1 as stated. The game is started, the flag is set and a frame runs at
  clock 1000: the flip is performed. The flag is set again and a frame runs at clock 1100,
  100ms later. The orientation is still the flipped one and the animation still starts at
  1000: the second request was not performed and the timestamp was not reset.
\<close>

theorem second_flip_ignored:
  "keys_space (game (run [KeyDown, Frame (tick 1000), KeyDown] (startGame (mount None)))) \<and>
   gravityFlipped (player (game (run [KeyDown, Frame (tick 1000), KeyDown]
      (startGame (mount None))))) \<and>
   flipStartTime (player (game (run [KeyDown, Frame (tick 1000), KeyDown]
      (startGame (mount None))))) = 1000 \<and>
   gravityFlipped (player (game (run [KeyDown, Frame (tick 1000), KeyDown, Frame (tick 1100)]
      (startGame (mount None))))) \<and>
   flipStartTime (player (game (run [KeyDown, Frame (tick 1000), KeyDown, Frame (tick 1100)]
      (startGame (mount None))))) = 1000"
  by (simp add: run_def handleKeyDown_def gameLoop_def startGame_flags set_space_more
      set_space_fields start_state level_zero startGame_flip tick_fields updateGame_flags(1)
      updateGame_idle updateGame_flip updateGame_game(2))

text \<open>
  C1, amended. \<open>updateGame\<close> accepts a flip only when the flag is set and the
  flip-animation flag is clear. In a frame that starts with the animation flag set, no flip is
  performed whatever the flag says, the start timestamp is kept, and the animation flag stays
  set unless the frame reads a clock more than 300ms past that timestamp. In a frame that
  starts with the flag clear, no flip is performed either and the timestamp is kept. A flip
  that is accepted inverts the orientation and sets the start timestamp to the clock it
  reads.
\<close>

theorem flip_gated_by_animation:
  "(isFlipping (player (game w)) \<longrightarrow>
      gravityFlipped (player (game (updateGame hs env w))) = gravityFlipped (player (game w)) \<and>
      flipStartTime (player (game (updateGame hs env w))) = flipStartTime (player (game w)) \<and>
      isFlipping (player (game (updateGame hs env w))) =
        (now_anim env - flipStartTime (player (game w)) \<le> 300)) \<and>
   (\<not> keys_space (game w) \<longrightarrow>
      gravityFlipped (player (game (updateGame hs env w))) = gravityFlipped (player (game w)) \<and>
      flipStartTime (player (game (updateGame hs env w))) = flipStartTime (player (game w)) \<and>
      isFlipping (player (game (updateGame hs env w))) =
        (isFlipping (player (game w)) \<and>
         now_anim env - flipStartTime (player (game w)) \<le> 300)) \<and>
   (keys_space (game w) \<and> \<not> isFlipping (player (game w)) \<longrightarrow>
      gravityFlipped (player (game (updateGame hs env w))) = (\<not> gravityFlipped (player (game w))) \<and>
      flipStartTime (player (game (updateGame hs env w))) = now_flip env \<and>
      isFlipping (player (game (updateGame hs env w))) = (now_anim env - now_flip env \<le> 300))"
  by (simp add: updateGame_flip)

text \<open>
  Witness for C1, amended: a frame of a fresh game without the flag performs no flip; the
  first frame of the counterexample accepts the flip; the second starts with the animation
  flag set and leaves orientation and timestamp alone.
\<close>

theorem flip_gated_by_animation_witness:
  "\<not> keys_space (game (startGame (mount None))) \<and>
   \<not> isFlipping (player (game (startGame (mount None)))) \<and>
   \<not> gravityFlipped (player (game (startGame (mount None)))) \<and>
   \<not> gravityFlipped (player (game (updateGame 0 (tick 900) (startGame (mount None))))) \<and>
   flipStartTime (player (game (updateGame 0 (tick 900) (startGame (mount None))))) = 0 \<and>
   \<not> isFlipping (player (game (updateGame 0 (tick 900) (startGame (mount None))))) \<and>
   keys_space (game (set_space True (startGame (mount None)))) \<and>
   \<not> isFlipping (player (game (set_space True (startGame (mount None))))) \<and>
   gravityFlipped (player (game (updateGame 0 (tick 1000)
      (set_space True (startGame (mount None)))))) \<and>
   flipStartTime (player (game (updateGame 0 (tick 1000)
      (set_space True (startGame (mount None)))))) = 1000 \<and>
   isFlipping (player (game (set_space True (updateGame 0 (tick 1000)
      (set_space True (startGame (mount None))))))) \<and>
   gravityFlipped (player (game (updateGame 0 (tick 1100) (set_space True
      (updateGame 0 (tick 1000) (set_space True (startGame (mount None)))))))) \<and>
   flipStartTime (player (game (updateGame 0 (tick 1100) (set_space True
      (updateGame 0 (tick 1000) (set_space True (startGame (mount None)))))))) = 1000"
  using
    flip_gated_by_animation [of "startGame (mount None)" 0 "tick 900"]
    flip_gated_by_animation [of "set_space True (startGame (mount None))" 0 "tick 1000"]
    flip_gated_by_animation [of "set_space True (updateGame 0 (tick 1000)
      (set_space True (startGame (mount None))))" 0 "tick 1100"]
  by (simp add: set_space_fields startGame_flip tick_fields)

subsection \<open>C2: the flag is not consumed by the frame\<close>

text \<open>
  Counterexample to C2 as stated. One key press sets the flag and nothing clears it. After
  the frame at clock 100 the flip has been performed and the flag is still set; the frame at
  500 ends the animation, and the frame at 600 performs a second flip from the same press:
  the orientation is back to normal and the animation starts at 600.
\<close>

theorem flag_survives_frame:
  "keys_space (game (run [KeyDown, Frame (tick 100)] (startGame (mount None)))) \<and>
   gravityFlipped (player (game (run [KeyDown, Frame (tick 100)] (startGame (mount None))))) \<and>
   flipStartTime (player (game (run [KeyDown, Frame (tick 100)] (startGame (mount None))))) = 100 \<and>
   \<not> gravityFlipped (player (game (run [KeyDown, Frame (tick 100), Frame (tick 500), Frame (tick 600)]
      (startGame (mount None))))) \<and>
   flipStartTime (player (game (run [KeyDown, Frame (tick 100), Frame (tick 500), Frame (tick 600)]
      (startGame (mount None))))) = 600"
  by (simp add: run_def handleKeyDown_def gameLoop_def startGame_flags set_space_more
      set_space_fields start_state level_zero startGame_flip tick_fields updateGame_flags(1)
      updateGame_idle updateGame_flip updateGame_game(2))

text \<open>
  C2, amended. \<open>updateGame\<close> never changes the pending flag, and a frame changes the
  orientation exactly when it starts with the flag set and the animation flag clear. Of the
  events, a frame leaves the flag as it is; a key press or a tap sets it when the game is
  running and otherwise starts a game, which resets the state and with it the flag; key
  release, the timer armed by a tap and the start button clear it.
\<close>

theorem flag_not_consumed:
  "keys_space (game (updateGame hs env w)) = keys_space (game w) \<and>
   (gravityFlipped (player (game (updateGame hs env w))) \<noteq> gravityFlipped (player (game w))) =
     (keys_space (game w) \<and> \<not> isFlipping (player (game w))) \<and>
   keys_space (game (handle (Frame env) w)) = keys_space (game w) \<and>
   keys_space (game (handle KeyDown w)) = (gameStarted w \<and> \<not> gameOver w) \<and>
   keys_space (game (handle Touch w)) = (gameStarted w \<and> \<not> gameOver w) \<and>
   keys_space (game (handle KeyUp w)) = False \<and>
   keys_space (game (handle TouchTimeout w)) = False \<and>
   keys_space (game (handle StartButton w)) = False \<and>
   keys_space (game (startGame w)) = False"
  by (auto simp add: updateGame_flip updateGame_game(2) handleKeyDown_def handleKeyUp_def
      handleTouch_def gameLoop_def set_space_fields startGame_flip)

subsection \<open>C3: the vertical band\<close>

text \<open>
  C3. Whatever events follow a game start (key presses and releases, taps, restarts, frames
  with any clock readings and draws), the player is between ceiling and ground:
  \<open>getCeilingY \<le> y\<close> and \<open>y + height \<le> getGroundY\<close>. Nothing in a frame moves the
  player after the ground/ceiling collision, so this is the state that step leaves.
\<close>

theorem player_in_band: "inBand (player (game (run evs (startGame w))))"
  using falling_run [OF falling_startGame] by (simp add: falling_def)

subsection \<open>C4: scoring\<close>

text \<open>
  C4. In a frame, the obstacles that remain are the moved obstacles that are neither off
  screen (\<open>x + width < 0\<close>) nor in collision with the player; the score grows by exactly 10
  for each moved obstacle that is off screen, and by nothing else, so no frame (and no
  iteration of the loop driver) lowers it.
\<close>

theorem score_awards:
  "obstacles (game (updateGame hs env w)) =
     filter (\<lambda>ob. \<not> offScreen ob \<and> \<not> checkCollision (player (game (updateGame hs env w))) ob)
       (map (moveObstacle (gameSpeed (game w))) (obstacles (game (beforeObstacles env w)))) \<and>
   score (game (updateGame hs env w)) =
     score (game w) +
     10 * int (length (filter offScreen
       (map (moveObstacle (gameSpeed (game w))) (obstacles (game (beforeObstacles env w)))))) \<and>
   score (game w) \<le> score (game (updateGame hs env w)) \<and>
   score (game w) \<le> score (game (gameLoop env w))"
  by (simp add: updateGame_obstacles updateGame_score filterObstacles_kept
      filterObstacles_score updateGame_game(1) beforeObstacles_fields(2,3) gameLoop_def)

subsection \<open>C5: game speed\<close>




subsection \<open>C6: the stored high score\<close>

text \<open>
  C6. An absent item reads as 0. When the callback runs with the high score the store reads
  as, the store becomes \<open>recordScore\<close> of the current score if the obstacle collides, and
  is unchanged otherwise. Over a whole iteration of the loop driver, in any state reachable
  from the first render, the store ends as \<open>storedAfter\<close> says: every collision of the
  pass overwrites the stored value with the score of that moment exactly when that score is
  strictly greater, although the code compares with the value the frame closed over.
\<close>

theorem high_score_persisted:
  "loadHighScore None = 0 \<and> highScore (mount None) = 0 \<and>
   storage (snd (obstacleCallback (loadHighScore (storage w)) ob w)) =
     (if \<not> offScreen (moveObstacle (gameSpeed (game w)) ob) \<and>
         checkCollision (player (game w)) (moveObstacle (gameSpeed (game w)) ob)
      then recordScore (score (game w)) (storage w) else storage w) \<and>
   storage (gameLoop env (run evs (mount item))) =
     (if \<not> gameOver (run evs (mount item)) \<and> gameStarted (run evs (mount item))
      then storedAfter (gameSpeed (game (run evs (mount item))))
             (player (game (beforeObstacles env (run evs (mount item)))))
             (obstacles (game (beforeObstacles env (run evs (mount item)))))
             (score (game (run evs (mount item)))) (storage (run evs (mount item)))
      else storage (run evs (mount item)))"
proof (intro conjI)
  show "loadHighScore None = 0" by (simp add: loadHighScore_def)
  show "highScore (mount None) = 0" by (simp add: mount_def loadHighScore_def)
  show "storage (snd (obstacleCallback (loadHighScore (storage w)) ob w)) =
     (if \<not> offScreen (moveObstacle (gameSpeed (game w)) ob) \<and>
         checkCollision (player (game w)) (moveObstacle (gameSpeed (game w)) ob)
      then recordScore (score (game w)) (storage w) else storage w)"
    by (rule obstacleCallback_recordScore) (simp add: inSync_def)
  have "inSync (highScore (run evs (mount item))) (beforeObstacles env (run evs (mount item)))"
    by (simp add: inSync_def beforeObstacles_fields mirror_mount)
  from filterObstacles_storage [OF this]
  show "storage (gameLoop env (run evs (mount item))) =
     (if \<not> gameOver (run evs (mount item)) \<and> gameStarted (run evs (mount item))
      then storedAfter (gameSpeed (game (run evs (mount item))))
             (player (game (beforeObstacles env (run evs (mount item)))))
             (obstacles (game (beforeObstacles env (run evs (mount item)))))
             (score (game (run evs (mount item)))) (storage (run evs (mount item)))
      else storage (run evs (mount item)))"
    by (simp add: gameLoop_def updateGame_store beforeObstacles_fields(2,3,6))
qed

subsection \<open>C7: the spawn gate\<close>

text \<open>
  Counterexample to C7 as stated. In a fresh game the spacing is 1500 and the last spawn is
  at 0. At clock 1500 the elapsed time does not exceed the spacing, yet an obstacle is pushed
  and the timestamp becomes 1500.
\<close>

theorem spawn_at_threshold:
  "\<not> (1500 - lastObstacleTime (game (startGame (mount None)))
        > getObstacleSpacing (getDifficultyLevel (score (game (startGame (mount None)))))) \<and>
   appended (game (startGame (mount None)))
      (createObstacle 1500 half_draws (game (startGame (mount None)))) =
     [\<lparr>o_id = 1500, o_x = 360, o_y = 446, o_width = 20, o_height = 144, isTop = False\<rparr>] \<and>
   lastObstacleTime (createObstacle 1500 half_draws (game (startGame (mount None)))) = 1500 \<and>
   lastObstacleTime (game (startGame (mount None))) = 0"
  by (simp add: start_state level_zero appended_createObstacle lastObstacleTime_createObstacle
      spawnPattern_def half_draws_def appended_single canvas_width_def canvas_height_def
      getGroundY_def fmul_def fl_consts)

text \<open>
  C7, amended. With \<open>level = \<lfloor>score / 100\<rfloor>\<close>, the spacing is
  \<open>max 800 (1500 - 100 * level)\<close> and the variety \<open>min 4 (1 + \<lfloor>level / 2\<rfloor>)\<close>. The
  generator returns the state unchanged when the elapsed time is less than the spacing.
  When it is at least the spacing, the generator sets the timestamp to the clock and runs
  the pattern whose index is the floor of the binary64 product of its first draw \<open>r\<close> and
  the variety: 0 the single obstacle, 1 the double stack, 2 the narrow gap, 3 the spikes.
  For a binary64 draw in \<open>[0, 1)\<close> and a score that is not negative the index is one of
  the first \<open>variety\<close> patterns. Index \<open>j\<close> is selected by every draw with
  \<open>j \<le> r * variety \<le> j + 1 - 2 ^ - 51\<close> and by no draw outside
  \<open>j - 2 ^ - 51 < r * variety < j + 1\<close>: the patterns are selected by draw intervals of the
  equal length \<open>1 / variety\<close>, up to the rounding of the product at their ends. All this
  holds with the patterns in exact arithmetic and with the patterns as computed.
\<close>

theorem spawn_gate:
  assumes "0 \<le> rnd 0" and "rnd 0 < 1" and "fl (rnd 0) = rnd 0" and "0 \<le> score st"
  shows "getObstacleSpacing (getDifficultyLevel (score st))
           = max 800 (1500 - 100 * \<lfloor>real_of_int (score st) / 100\<rfloor>) \<and>
         getObstacleVariety (getDifficultyLevel (score st))
           = min 4 (1 + \<lfloor>real_of_int \<lfloor>real_of_int (score st) / 100\<rfloor> / 2\<rfloor>) \<and>
         (now - lastObstacleTime st < getObstacleSpacing (getDifficultyLevel (score st))
            \<longrightarrow> createObstacle now rnd st = st \<and> createObstacle_d now rnd st = st) \<and>
         (now - lastObstacleTime st \<ge> getObstacleSpacing (getDifficultyLevel (score st))
            \<longrightarrow> createObstacle now rnd st =
                  (spawnPattern
                     \<lfloor>fmul (rnd 0) (real_of_int (getObstacleVariety (getDifficultyLevel (score st))))\<rfloor>
                     (real_of_int now) (\<lambda>n. rnd (Suc n)) st)\<lparr>lastObstacleTime := now\<rparr> \<and>
                createObstacle_d now rnd st =
                  (spawnPattern_d
                     \<lfloor>fmul (rnd 0) (real_of_int (getObstacleVariety (getDifficultyLevel (score st))))\<rfloor>
                     (real_of_int now) (\<lambda>n. rnd (Suc n)) st)\<lparr>lastObstacleTime := now\<rparr>) \<and>
         0 \<le> \<lfloor>fmul (rnd 0) (real_of_int (getObstacleVariety (getDifficultyLevel (score st))))\<rfloor> \<and>
         \<lfloor>fmul (rnd 0) (real_of_int (getObstacleVariety (getDifficultyLevel (score st))))\<rfloor>
           < getObstacleVariety (getDifficultyLevel (score st)) \<and>
         (real_of_int j \<le> rnd 0 * real_of_int (getObstacleVariety (getDifficultyLevel (score st))) \<and>
          rnd 0 * real_of_int (getObstacleVariety (getDifficultyLevel (score st)))
            \<le> real_of_int j + 1 - 1 / 2 ^ 51
            \<longrightarrow> \<lfloor>fmul (rnd 0) (real_of_int (getObstacleVariety (getDifficultyLevel (score st))))\<rfloor>
                  = j) \<and>
         (\<lfloor>fmul (rnd 0) (real_of_int (getObstacleVariety (getDifficultyLevel (score st))))\<rfloor> = j
            \<longrightarrow> real_of_int j - 1 / 2 ^ 51
                  < rnd 0 * real_of_int (getObstacleVariety (getDifficultyLevel (score st))) \<and>
                rnd 0 * real_of_int (getObstacleVariety (getDifficultyLevel (score st)))
                  < real_of_int j + 1) \<and>
         spawnPattern 0 i r s = createSingleObstacle i r s \<and>
         spawnPattern 1 i r s = createDoubleObstacle i s \<and>
         spawnPattern 2 i r s = createNarrowGap i r s \<and>
         spawnPattern 3 i r s = createSpikePattern i r s \<and>
         spawnPattern_d 0 i r s = createSingleObstacle_d i r s \<and>
         spawnPattern_d 1 i r s = createDoubleObstacle_d i s \<and>
         spawnPattern_d 2 i r s = createNarrowGap_d i r s \<and>
         spawnPattern_d 3 i r s = createSpikePattern_d i r s"
proof -
  have v: "1 \<le> getObstacleVariety (getDifficultyLevel (score st))"
    "getObstacleVariety (getDifficultyLevel (score st)) \<le> 4"
    using variety_range [OF assms(4)] by simp_all
  have "getObstacleSpacing (getDifficultyLevel (score st))
           = max 800 (1500 - 100 * \<lfloor>real_of_int (score st) / 100\<rfloor>)"
    by (simp add: getObstacleSpacing_def getDifficultyLevel_def)
  moreover have "getObstacleVariety (getDifficultyLevel (score st))
           = min 4 (1 + \<lfloor>real_of_int \<lfloor>real_of_int (score st) / 100\<rfloor> / 2\<rfloor>)"
    by (simp add: getObstacleVariety_def getDifficultyLevel_def)
  moreover have "now - lastObstacleTime st < getObstacleSpacing (getDifficultyLevel (score st))
            \<longrightarrow> createObstacle now rnd st = st \<and> createObstacle_d now rnd st = st"
    by (simp add: createObstacle_def createObstacle_d_def Let_def)
  moreover have "now - lastObstacleTime st \<ge> getObstacleSpacing (getDifficultyLevel (score st))
            \<longrightarrow> createObstacle now rnd st =
                  (spawnPattern
                     \<lfloor>fmul (rnd 0) (real_of_int (getObstacleVariety (getDifficultyLevel (score st))))\<rfloor>
                     (real_of_int now) (\<lambda>n. rnd (Suc n)) st)\<lparr>lastObstacleTime := now\<rparr> \<and>
                createObstacle_d now rnd st =
                  (spawnPattern_d
                     \<lfloor>fmul (rnd 0) (real_of_int (getObstacleVariety (getDifficultyLevel (score st))))\<rfloor>
                     (real_of_int now) (\<lambda>n. rnd (Suc n)) st)\<lparr>lastObstacleTime := now\<rparr>"
    by (simp add: createObstacle_def createObstacle_d_def Let_def)
  moreover note index_range [OF assms(1,2,3) v]
    index_interval [OF assms(1,2,3) v, of j]
  moreover have "spawnPattern 0 i r s = createSingleObstacle i r s"
    "spawnPattern 1 i r s = createDoubleObstacle i s"
    "spawnPattern 2 i r s = createNarrowGap i r s"
    "spawnPattern 3 i r s = createSpikePattern i r s"
    "spawnPattern_d 0 i r s = createSingleObstacle_d i r s"
    "spawnPattern_d 1 i r s = createDoubleObstacle_d i s"
    "spawnPattern_d 2 i r s = createNarrowGap_d i r s"
    "spawnPattern_d 3 i r s = createSpikePattern_d i r s"
    by (simp_all add: spawnPattern_def spawnPattern_d_def)
  ultimately show ?thesis by blast
qed

text \<open>
  Witness for C7, amended: score 600, so level 6, spacing 900 and variety 4. At 899 nothing
  happens; at 900 the draw 1/2 gives the product 2 and selects pattern 2, the narrow gap.
\<close>

theorem spawn_gate_witness:
  "0 \<le> half_draws 0 \<and> half_draws 0 < 1 \<and> fl (half_draws 0) = half_draws 0 \<and>
   getObstacleSpacing (getDifficultyLevel (score ((game (startGame (mount None)))\<lparr>score := 600\<rparr>)))
     = 900 \<and>
   getObstacleVariety (getDifficultyLevel (score ((game (startGame (mount None)))\<lparr>score := 600\<rparr>)))
     = 4 \<and>
   createObstacle 899 half_draws ((game (startGame (mount None)))\<lparr>score := 600\<rparr>)
     = (game (startGame (mount None)))\<lparr>score := 600\<rparr> \<and>
   createObstacle 900 half_draws ((game (startGame (mount None)))\<lparr>score := 600\<rparr>)
     = (createNarrowGap 900 (\<lambda>n. half_draws (Suc n))
          ((game (startGame (mount None)))\<lparr>score := 600\<rparr>))\<lparr>lastObstacleTime := 900\<rparr> \<and>
   createObstacle_d 900 half_draws ((game (startGame (mount None)))\<lparr>score := 600\<rparr>)
     = (createNarrowGap_d 900 (\<lambda>n. half_draws (Suc n))
          ((game (startGame (mount None)))\<lparr>score := 600\<rparr>))\<lparr>lastObstacleTime := 900\<rparr> \<and>
   \<lfloor>fmul (half_draws 0) 4\<rfloor> = 2 \<and>
   real_of_int 2 \<le> half_draws 0 * 4 \<and> half_draws 0 * 4 \<le> real_of_int 2 + 1 - 1 / 2 ^ 51"
proof -
  have fls: "fl (1 / 2) = 1 / 2" "fl 2 = 2" by (simp_all add: fl_consts fl_small)
  have lv: "getObstacleSpacing (getDifficultyLevel 600) = 900"
    "getObstacleVariety (getDifficultyLevel 600) = 4"
    by (simp_all add: getObstacleSpacing_def getObstacleVariety_def getDifficultyLevel_def)
  show ?thesis
    using
      spawn_gate [of half_draws "(game (startGame (mount None)))\<lparr>score := 600\<rparr>" 899 2
        900 "\<lambda>n. half_draws (Suc n)" "(game (startGame (mount None)))\<lparr>score := 600\<rparr>"]
      spawn_gate [of half_draws "(game (startGame (mount None)))\<lparr>score := 600\<rparr>" 900 2
        900 "\<lambda>n. half_draws (Suc n)" "(game (startGame (mount None)))\<lparr>score := 600\<rparr>"]
    by (simp add: half_draws_def start_state fls lv fmul_def)
qed

subsection \<open>C8: obstacle sizes\<close>

text \<open>
  Counterexample to C8 as stated. The draw is \<open>1 - 2 ^ - 53\<close>, the largest binary64 value
  below 1. In \<open>createNarrowGap\<close> the product with 330 rounds to \<open>330 - 2 ^ - 44\<close>, so
  \<open>gapStart\<close> is \<open>430 - 2 ^ - 44\<close>; \<open>gapStart + gap\<close> lies halfway between two binary64
  values and rounds to the even one, 590, which is \<open>getGroundY\<close>. The lower segment gets the
  height \<open>590 - 590 = 0\<close>.
\<close>

theorem narrow_gap_zero_height:
  "0 \<le> top_draws 0 \<and> top_draws 0 < 1 \<and>
   map o_height (appended (game (startGame (mount None)))
      (createNarrowGap_d 0 top_draws (game (startGame (mount None))))) =
     [380 - 1 / 2 ^ 44, 0] \<and>
   \<not> list_all positive_size (appended (game (startGame (mount None)))
      (createNarrowGap_d 0 top_draws (game (startGame (mount None)))))"
proof -
  have "\<not> list_all (\<lambda>h. 0 < h) (map o_height (appended (game (startGame (mount None)))
      (createNarrowGap_d 0 top_draws (game (startGame (mount None))))))"
    by (simp only: top_draw_heights) simp
  then have "\<not> list_all positive_size (appended (game (startGame (mount None)))
      (createNarrowGap_d 0 top_draws (game (startGame (mount None)))))"
    by (auto simp add: list_all_iff positive_size_def)
  then show ?thesis by (simp add: top_draw_heights top_draws_def)
qed

text \<open>
  C8, amended. For draws in \<open>[0, 1)\<close> and the 360 by 640 canvas, every obstacle pushed by
  the four patterns has positive width and a height that is not negative. As JavaScript
  computes them, the heights are positive for the single, double-stack and spike patterns
  and for the upper segment of the narrow gap. In exact arithmetic all heights are positive,
  those of the lower segment of the narrow gap included, for each pattern and for the
  generator as a whole.
\<close>

theorem obstacle_sizes:
  assumes "\<forall>n. 0 \<le> rnd n \<and> rnd n < 1"
  shows "list_all positive_size (appended st (createSingleObstacle_d i rnd st)) \<and>
         list_all positive_size (appended st (createDoubleObstacle_d i st)) \<and>
         list_all sound_size (appended st (createNarrowGap_d i rnd st)) \<and>
         positive_size (hd (appended st (createNarrowGap_d i rnd st))) \<and>
         list_all positive_size (appended st (createSpikePattern_d i rnd st)) \<and>
         list_all positive_size (appended st (createSingleObstacle i rnd st)) \<and>
         list_all positive_size (appended st (createDoubleObstacle i st)) \<and>
         list_all positive_size (appended st (createNarrowGap i rnd st)) \<and>
         list_all positive_size (appended st (createSpikePattern i rnd st)) \<and>
         list_all positive_size (appended st (createObstacle now rnd st))"
proof -
  have "\<forall>n. 0 \<le> rnd (Suc n) \<and> rnd (Suc n) < 1" using assms by simp
  then have "list_all positive_size (appended st (createObstacle now rnd st))"
    by (simp add: appended_createObstacle positive_spawnPattern)
  then show ?thesis
    using positive_single [OF assms] positive_double positive_narrow [OF assms]
      positive_spikes [OF assms] sizes_single_d [OF assms] sizes_double_d
      sizes_narrow_d [OF assms] sizes_spikes_d [OF assms]
    by simp
qed

text \<open>
  Witness for C8, amended: the narrow gap for the draw 1/2, where rounding changes nothing:
  the segments have the heights 215 and 165 in either arithmetic.
\<close>

theorem obstacle_sizes_witness:
  "(\<forall>n. 0 \<le> half_draws n \<and> half_draws n < 1) \<and>
   map o_height (appended (game (startGame (mount None)))
     (createNarrowGap_d 7 half_draws (game (startGame (mount None))))) = [215, 165] \<and>
   map o_height (appended (game (startGame (mount None)))
     (createNarrowGap 7 half_draws (game (startGame (mount None))))) = [215, 165] \<and>
   list_all sound_size (appended (game (startGame (mount None)))
     (createNarrowGap_d 7 half_draws (game (startGame (mount None))))) \<and>
   list_all positive_size (appended (game (startGame (mount None)))
     (createNarrowGap 7 half_draws (game (startGame (mount None)))))"
proof -
  have "fl 165 = 165" "fl 265 = 265" "fl 215 = 215" "fl 425 = 425"
    using fl_exact [of "165 * 2 ^ 45" 45] fl_exact [of "265 * 2 ^ 44" 44]
      fl_exact [of "215 * 2 ^ 45" 45] fl_exact [of "425 * 2 ^ 44" 44]
    by simp_all
  then show ?thesis
    using obstacle_sizes [of half_draws "game (startGame (mount None))" 7 0]
    by (simp add: half_draws_def appended_narrow_d appended_narrow)
qed

subsection \<open>C9: obstacles and the column of the player\<close>

text \<open>
  C9. The player starts at \<open>x = 0.15 * canvas_width\<close> with width 25, left of the right
  edge. Every obstacle pushed by a pattern, for any draws, starts at or beyond the right
  edge, strictly to the right of the player; this holds for each pattern and for the
  generator, and for the patterns as computed with rounding as well.
\<close>

theorem obstacles_spawn_right_of_player:
  "p_x (player (game (startGame w))) = 0.15 * canvas_width \<and>
   p_width (player (game (startGame w))) = 25 \<and>
   p_x (player (game (startGame w))) + p_width (player (game (startGame w))) < canvas_width \<and>
   list_all (spawnColumnClear (player (game (startGame w))))
     (appended st (createSingleObstacle i rnd st)) \<and>
   list_all (spawnColumnClear (player (game (startGame w))))
     (appended st (createDoubleObstacle i st)) \<and>
   list_all (spawnColumnClear (player (game (startGame w))))
     (appended st (createNarrowGap i rnd st)) \<and>
   list_all (spawnColumnClear (player (game (startGame w))))
     (appended st (createSpikePattern i rnd st)) \<and>
   list_all (spawnColumnClear (player (game (startGame w))))
     (appended st (createObstacle now rnd st)) \<and>
   list_all (spawnColumnClear (player (game (startGame w))))
     (appended st (createSingleObstacle_d i rnd st)) \<and>
   list_all (spawnColumnClear (player (game (startGame w))))
     (appended st (createDoubleObstacle_d i st)) \<and>
   list_all (spawnColumnClear (player (game (startGame w))))
     (appended st (createNarrowGap_d i rnd st)) \<and>
   list_all (spawnColumnClear (player (game (startGame w))))
     (appended st (createSpikePattern_d i rnd st))"
proof -
  have "list_all (spawnColumnClear (player (game (startGame w))))
     (appended st (spawnPattern k j r st))" for k j r
    by (simp add: spawnPattern_def clear_single clear_double clear_narrow clear_spikes)
  then have "list_all (spawnColumnClear (player (game (startGame w))))
     (appended st (createObstacle now rnd st))"
    by (simp add: appended_createObstacle)
  moreover have "p_x (player (game (startGame w))) = 0.15 * canvas_width"
    "p_width (player (game (startGame w))) = 25"
    "p_x (player (game (startGame w))) + p_width (player (game (startGame w))) < canvas_width"
    by (simp_all add: startGame_def Let_def canvas_width_def getPlayerSize_def)
  ultimately show ?thesis
    by (simp add: clear_single clear_double clear_narrow clear_spikes clear_generators_d
        clear_narrow_d clear_spikes_d)
qed

subsection \<open>C10: what a frame leaves of the player\<close>

text \<open>C10. A frame changes neither the x-position nor the width nor the height of the player.\<close>

theorem updateGame_frame_player:
  "p_x (player (game (updateGame hs env w))) = p_x (player (game w)) \<and>
   p_width (player (game (updateGame hs env w))) = p_width (player (game w)) \<and>
   p_height (player (game (updateGame hs env w))) = p_height (player (game w))"
  by (simp add: updateGame_game beforeObstacles_fields movePlayer_fields handleFlip_player
      trackDistance_fields)

end
